theory Spec2Isabelle
  imports Main
begin

section \<open>The host: a document tree with node identity\<close>

text \<open>
  kingdom.js is a thin layer over the browser's document tree. The library's functions are
  embedded below from \<^verbatim>\<open>src/kingdom.js\<close> (its first, documented copy); the browser
  primitives they call are modelled here, after the DOM Standard, on a tree whose elements
  carry a reference (their identity). Four pieces of the host are taken as parameters,
  the selector language, the markup parser, the test for a well-formed name and the setter
  of a form control's value, so that every theorem holds for any of them.
\<close>

type_synonym ref = nat

datatype jsval =
    Undefined
  | Null
  | Str string
  | Node ref
  | Document
  | Window
  | Fn nat

datatype error =
    TypeError
  | ReferenceError
  | SyntaxError
  | InvalidCharacterError
  | HierarchyRequestError
  | NoModificationAllowedError
  | InvalidStateError

record element =
  localName :: string
  attributes :: "(string \<times> string) list"
  classList :: "string list"
  value_prop :: string
  on_prop :: bool
  listeners :: "(string \<times> jsval) list"

datatype tree =
    Element ref element "tree list"
  | Text string

record world =
  document :: "tree list"
  detached :: "tree list"
  fresh :: ref
  console :: "jsval list"
  dispatched :: "(jsval \<times> string) list"

text \<open>
  \<open>document\<close> holds the children of the document node, \<open>detached\<close> the trees that are in
  no document (created and not yet inserted, or removed), \<open>fresh\<close> the next unused
  reference, \<open>console\<close> the arguments of every \<^verbatim>\<open>console.warn\<close> so far and
  \<open>dispatched\<close> every event fired so far, with its target.
\<close>

record host =
  selector :: "string \<Rightarrow> (tree list \<Rightarrow> ref \<Rightarrow> bool) option"
  parse :: "string \<Rightarrow> ref \<Rightarrow> tree list \<times> ref"
  valid_name :: "string \<Rightarrow> bool"
  assign_value :: "element \<Rightarrow> string \<Rightarrow> error + string"

text \<open>
  \<open>selector h s\<close> is \<open>None\<close> when \<open>s\<close> is not a selector (the host raises SyntaxError), and
  otherwise the test "this element of this forest matches \<open>s\<close>". \<open>parse h s n\<close> turns markup
  into trees whose references start at \<open>n\<close>, and returns the next unused reference.
  \<open>valid_name h s\<close> says whether the host takes \<open>s\<close> as the name of an element or of an
  attribute (it raises InvalidCharacterError otherwise). \<open>assign_value h e s\<close> is what the
  setter of \<^verbatim>\<open>value\<close> does when \<open>s\<close> is assigned to the form control \<open>e\<close>: the string it
  keeps, which depends on the kind of control (a text input drops line breaks), or the
  exception it raises (InvalidStateError on a file input, unless \<open>s\<close> is empty).
\<close>

type_synonym 'a result = "(error + 'a) \<times> world"

subsection \<open>Reading the tree\<close>

definition forest :: "world \<Rightarrow> tree list" where
  "forest w = document w @ detached w"

fun elements :: "tree \<Rightarrow> (ref \<times> element) list" where
  "elements (Element r e ts) = (r, e) # concat (map elements ts)"
| "elements (Text s) = []"

definition elements_list :: "tree list \<Rightarrow> (ref \<times> element) list" where
  "elements_list ts = concat (map elements ts)"

definition labels :: "tree list \<Rightarrow> ref list" where
  "labels ts = map fst (elements_list ts)"

fun subtrees :: "tree \<Rightarrow> tree list" where
  "subtrees (Element r e ts) = Element r e ts # concat (map subtrees ts)"
| "subtrees (Text s) = []"

fun is_node :: "ref \<Rightarrow> tree \<Rightarrow> bool" where
  "is_node r (Element l e ts) = (l = r)"
| "is_node r (Text s) = False"

definition find_node :: "ref \<Rightarrow> tree list \<Rightarrow> tree option" where
  "find_node r ts = find (is_node r) (concat (map subtrees ts))"

fun children :: "tree \<Rightarrow> tree list" where
  "children (Element r e ts) = ts"
| "children (Text s) = []"

definition children_of :: "world \<Rightarrow> ref \<Rightarrow> tree list" where
  "children_of w r = (case find_node r (forest w) of None \<Rightarrow> [] | Some t \<Rightarrow> children t)"

definition element_of :: "world \<Rightarrow> ref \<Rightarrow> element option" where
  "element_of w r = map_of (elements_list (forest w)) r"

text \<open>\<^verbatim>\<open>scope.querySelector(s)\<close>: the first descendant element of the scope, in tree
  order, that matches.\<close>

definition query :: "host \<Rightarrow> world \<Rightarrow> tree list \<Rightarrow> string \<Rightarrow> error + jsval" where
  "query h w scope s =
     (case selector h s of
        None \<Rightarrow> Inl SyntaxError
      | Some p \<Rightarrow>
          (case find (\<lambda>(r, e). p (forest w) r) (elements_list scope) of
             None \<Rightarrow> Inr Null
           | Some (r, e) \<Rightarrow> Inr (Node r)))"

definition querySelector :: "host \<Rightarrow> world \<Rightarrow> jsval \<Rightarrow> string \<Rightarrow> error + jsval" where
  "querySelector h w scope s =
     (case scope of
        Document \<Rightarrow> query h w (document w) s
      | Node r \<Rightarrow> query h w (children_of w r) s
      | _ \<Rightarrow> Inl TypeError)"

fun truthy :: "jsval \<Rightarrow> bool" where
  "truthy Undefined = False"
| "truthy Null = False"
| "truthy (Str s) = (s \<noteq> [])"
| "truthy v = True"

fun is_string :: "jsval \<Rightarrow> bool" where
  "is_string (Str s) = True"
| "is_string v = False"

subsection \<open>Strings and values\<close>

definition to_lower :: "char \<Rightarrow> char" where
  "to_lower c = (let n = (of_char c :: nat) in if 65 \<le> n \<and> n \<le> 90 then char_of (n + 32) else c)"

definition to_upper :: "char \<Rightarrow> char" where
  "to_upper c = (let n = (of_char c :: nat) in if 97 \<le> n \<and> n \<le> 122 then char_of (n - 32) else c)"

definition starts_with :: "string \<Rightarrow> string \<Rightarrow> bool" where
  "starts_with p s = (take (length p) s = p)"

definition ends_with :: "string \<Rightarrow> string \<Rightarrow> bool" where
  "ends_with p s = (length p \<le> length s \<and> drop (length s - length p) s = p)"

text \<open>
  ToString on the values of the model. The spellings of objects and functions are the
  host's; one is fixed here and nothing below depends on it.
\<close>

fun to_string :: "jsval \<Rightarrow> string" where
  "to_string Undefined = ''undefined''"
| "to_string Null = ''null''"
| "to_string (Str s) = s"
| "to_string (Node r) = ''[object HTMLElement]''"
| "to_string Document = ''[object HTMLDocument]''"
| "to_string Window = ''[object Window]''"
| "to_string (Fn f) = ''function () { [native code] }''"

text \<open>\<^verbatim>\<open>innerHTML\<close> takes \<^verbatim>\<open>null\<close> as the empty string; \<^verbatim>\<open>textContent\<close>, whose
  type is nullable, takes \<^verbatim>\<open>null\<close> and \<^verbatim>\<open>undefined\<close> so.\<close>

definition to_string_null_empty :: "jsval \<Rightarrow> string" where
  "to_string_null_empty v = (if v = Null then [] else to_string v)"

definition to_string_nullable :: "jsval \<Rightarrow> string" where
  "to_string_nullable v = (if v = Null \<or> v = Undefined then [] else to_string v)"

fun is_function :: "jsval \<Rightarrow> bool" where
  "is_function (Fn f) = True"
| "is_function v = False"

definition ascii_whitespace :: "char \<Rightarrow> bool" where
  "ascii_whitespace c = (of_char c \<in> {9, 10, 12, 13, 32 :: nat})"

text \<open>The ordered set of tokens of a \<^verbatim>\<open>class\<close> attribute: split at whitespace, first
  occurrences kept.\<close>

fun split_ws :: "string \<Rightarrow> string \<Rightarrow> string list" where
  "split_ws acc [] = (if acc = [] then [] else [rev acc])"
| "split_ws acc (c # cs) =
     (if ascii_whitespace c then (if acc = [] then split_ws [] cs else rev acc # split_ws [] cs)
      else split_ws (c # acc) cs)"

fun ordered_set :: "string list \<Rightarrow> string list \<Rightarrow> string list" where
  "ordered_set seen [] = rev seen"
| "ordered_set seen (t # ts) = (if t \<in> set seen then ordered_set seen ts else ordered_set (t # seen) ts)"

definition tokens :: "string \<Rightarrow> string list" where
  "tokens s = ordered_set [] (split_ws [] s)"

subsection \<open>Changing the tree\<close>

definition on_forest :: "(tree list \<Rightarrow> tree list) \<Rightarrow> world \<Rightarrow> world" where
  "on_forest f w = w\<lparr>document := f (document w), detached := f (detached w)\<rparr>"

fun map_element :: "ref \<Rightarrow> (element \<Rightarrow> element) \<Rightarrow> tree \<Rightarrow> tree" where
  "map_element r f (Element l e ts) = Element l (if l = r then f e else e) (map (map_element r f) ts)"
| "map_element r f (Text s) = Text s"

definition modify :: "ref \<Rightarrow> (element \<Rightarrow> element) \<Rightarrow> world \<Rightarrow> world" where
  "modify r f w = on_forest (map (map_element r f)) w"

fun is_element :: "tree \<Rightarrow> bool" where
  "is_element (Element l e ts) = True"
| "is_element (Text s) = False"

fun replace_children :: "ref \<Rightarrow> tree list \<Rightarrow> tree \<Rightarrow> tree" where
  "replace_children r cs (Element l e ts) =
     (if l = r then Element l e cs else Element l e (map (replace_children r cs) ts))"
| "replace_children r cs (Text s) = Text s"

text \<open>Replacing the children of a node leaves the old element children in no document;
  a reference to one of them stays good.\<close>

definition set_children :: "ref \<Rightarrow> tree list \<Rightarrow> world \<Rightarrow> world" where
  "set_children r cs w =
     (let old = filter is_element (children_of w r);
          w' = on_forest (map (replace_children r cs)) w
      in w'\<lparr>detached := detached w' @ old\<rparr>)"

fun text_of :: "tree \<Rightarrow> string" where
  "text_of (Element l e ts) = concat (map text_of ts)"
| "text_of (Text s) = s"

text \<open>The \<^verbatim>\<open>textContent\<close> of an element: getter and setter.\<close>

definition textContent :: "world \<Rightarrow> ref \<Rightarrow> string option" where
  "textContent w r = map_option text_of (find_node r (forest w))"

definition set_textContent :: "ref \<Rightarrow> string \<Rightarrow> world \<Rightarrow> world" where
  "set_textContent r s w = set_children r (if s = [] then [] else [Text s]) w"

definition set_innerHTML :: "host \<Rightarrow> ref \<Rightarrow> string \<Rightarrow> world \<Rightarrow> world" where
  "set_innerHTML h r s w =
     (case parse h s (fresh w) of (ts, n) \<Rightarrow> set_children r ts (w\<lparr>fresh := n\<rparr>))"

definition tagName :: "world \<Rightarrow> ref \<Rightarrow> string" where
  "tagName w r = (case element_of w r of None \<Rightarrow> [] | Some e \<Rightarrow> map to_upper (localName e))"

subsubsection \<open>The class list\<close>

definition check_token :: "string \<Rightarrow> error option" where
  "check_token c =
     (if c = [] then Some SyntaxError
      else if \<exists>x \<in> set c. ascii_whitespace x then Some InvalidCharacterError
      else None)"

definition token_add :: "string \<Rightarrow> string list \<Rightarrow> string list" where
  "token_add c cs = (if c \<in> set cs then cs else cs @ [c])"

definition token_remove :: "string \<Rightarrow> string list \<Rightarrow> string list" where
  "token_remove c cs = removeAll c cs"

definition token_toggle :: "string \<Rightarrow> string list \<Rightarrow> string list" where
  "token_toggle c cs = (if c \<in> set cs then token_remove c cs else token_add c cs)"

text \<open>
  \<^verbatim>\<open>el.classList.add(c)\<close> and its two siblings: reading \<^verbatim>\<open>classList\<close> off
  \<^verbatim>\<open>null\<close>, or calling a method of the \<^verbatim>\<open>undefined\<close> that anything but an element
  has there, is a TypeError; then the host checks the token.
\<close>

definition classList_apply ::
  "(string \<Rightarrow> string list \<Rightarrow> string list) \<Rightarrow> world \<Rightarrow> jsval \<Rightarrow> string \<Rightarrow> jsval result" where
  "classList_apply f w el c =
     (case el of
        Node r \<Rightarrow>
          (case check_token c of
             Some err \<Rightarrow> (Inl err, w)
           | None \<Rightarrow> (Inr Undefined, modify r (\<lambda>e. e\<lparr>classList := f c (classList e)\<rparr>) w))
      | _ \<Rightarrow> (Inl TypeError, w))"

definition has_class :: "world \<Rightarrow> ref \<Rightarrow> string \<Rightarrow> bool" where
  "has_class w r c = (case element_of w r of None \<Rightarrow> False | Some e \<Rightarrow> c \<in> set (classList e))"

subsubsection \<open>Attributes, listeners, new elements\<close>

definition bind :: "'a result \<Rightarrow> ('a \<Rightarrow> world \<Rightarrow> 'b result) \<Rightarrow> 'b result" where
  "bind m f = (case m of (Inl err, w) \<Rightarrow> (Inl err, w) | (Inr a, w) \<Rightarrow> f a w)"

fun assoc_set :: "string \<Rightarrow> 'v \<Rightarrow> (string \<times> 'v) list \<Rightarrow> (string \<times> 'v) list" where
  "assoc_set k v [] = [(k, v)]"
| "assoc_set k v ((k', v') # kvs) = (if k' = k then (k, v) # kvs else (k', v') # assoc_set k v kvs)"

text \<open>
  \<^verbatim>\<open>el.setAttribute(name, value)\<close> on an element of an HTML document: the name is
  checked, then lower-cased. The \<^verbatim>\<open>class\<close> attribute is the class list.
\<close>

definition setAttribute :: "host \<Rightarrow> world \<Rightarrow> jsval \<Rightarrow> string \<Rightarrow> string \<Rightarrow> jsval result" where
  "setAttribute h w el name v =
     (case el of
        Node r \<Rightarrow>
          if \<not> valid_name h name then (Inl InvalidCharacterError, w)
          else (let n = map to_lower name in
                if n = ''class'' then (Inr Undefined, modify r (\<lambda>e. e\<lparr>classList := tokens v\<rparr>) w)
                else (Inr Undefined, modify r (\<lambda>e. e\<lparr>attributes := assoc_set n v (attributes e)\<rparr>) w))
      | _ \<Rightarrow> (Inl TypeError, w))"

definition attribute :: "world \<Rightarrow> ref \<Rightarrow> string \<Rightarrow> string option" where
  "attribute w r name = (case element_of w r of None \<Rightarrow> None | Some e \<Rightarrow> map_of (attributes e) name)"

text \<open>
  \<^verbatim>\<open>el.addEventListener(type, callback)\<close>: \<^verbatim>\<open>null\<close> and \<^verbatim>\<open>undefined\<close> register
  nothing, a string is a TypeError, a function or an object is registered once.
\<close>

definition addEventListener :: "world \<Rightarrow> jsval \<Rightarrow> string \<Rightarrow> jsval \<Rightarrow> jsval result" where
  "addEventListener w el type cb =
     (case el of
        Node r \<Rightarrow>
          (case cb of
             Str s \<Rightarrow> (Inl TypeError, w)
           | Undefined \<Rightarrow> (Inr Undefined, w)
           | Null \<Rightarrow> (Inr Undefined, w)
           | _ \<Rightarrow> (Inr Undefined,
                   modify r (\<lambda>e. e\<lparr>listeners :=
                     (if (type, cb) \<in> set (listeners e) then listeners e
                      else listeners e @ [(type, cb)])\<rparr>) w))
      | _ \<Rightarrow> (Inl TypeError, w))"

text \<open>\<^verbatim>\<open>document.createElement(tag)\<close>: a new element, in no document, with a reference
  never used before.\<close>

definition createElement :: "host \<Rightarrow> world \<Rightarrow> string \<Rightarrow> jsval result" where
  "createElement h w tag =
     (if \<not> valid_name h tag then (Inl InvalidCharacterError, w)
      else (Inr (Node (fresh w)),
            w\<lparr>detached := detached w @
                 [Element (fresh w)
                    \<lparr>localName = map to_lower tag, attributes = [], classList = [],
                     value_prop = [], on_prop = False, listeners = []\<rparr> []],
               fresh := Suc (fresh w)\<rparr>))"

subsubsection \<open>Removing and inserting\<close>

fun prune :: "ref \<Rightarrow> tree \<Rightarrow> tree" where
  "prune r (Element l e ts) = Element l e (map (prune r) (filter (\<lambda>t. \<not> is_node r t) ts))"
| "prune r (Text s) = Text s"

definition is_root :: "ref \<Rightarrow> tree list \<Rightarrow> bool" where
  "is_root r ts = (find (is_node r) ts \<noteq> None)"

text \<open>
  \<open>take_out\<close> takes a node, with its subtree, out of wherever it is. \<open>detach\<close> takes it
  out of its parent: its tree moves to the detached ones, and a node with no parent stays
  where it is.
\<close>

definition without :: "ref \<Rightarrow> tree list \<Rightarrow> tree list" where
  "without r ts = map (prune r) (filter (\<lambda>t. \<not> is_node r t) ts)"

definition take_out :: "ref \<Rightarrow> world \<Rightarrow> world" where
  "take_out r w = on_forest (without r) w"

definition detach :: "ref \<Rightarrow> world \<Rightarrow> world" where
  "detach r w =
     (case find_node r (forest w) of
        None \<Rightarrow> w
      | Some t \<Rightarrow>
          if \<not> is_root r (document w) \<and> is_root r (detached w) then w
          else (take_out r w)\<lparr>detached := detached (take_out r w) @ [t]\<rparr>)"

text \<open>\<^verbatim>\<open>el.remove()\<close>; only elements have the method.\<close>

definition remove_node :: "world \<Rightarrow> jsval \<Rightarrow> jsval result" where
  "remove_node w el = (case el of Node r \<Rightarrow> (Inr Undefined, detach r w) | _ \<Rightarrow> (Inl TypeError, w))"

datatype position = BeforeBegin | AfterBegin | BeforeEnd | AfterEnd

definition parse_position :: "string \<Rightarrow> position option" where
  "parse_position s =
     (let p = map to_lower s in
      if p = ''beforebegin'' then Some BeforeBegin
      else if p = ''afterbegin'' then Some AfterBegin
      else if p = ''beforeend'' then Some BeforeEnd
      else if p = ''afterend'' then Some AfterEnd
      else None)"

fun beside :: "position \<Rightarrow> bool" where
  "beside BeforeBegin = True"
| "beside AfterEnd = True"
| "beside p = False"

text \<open>\<open>place p r new t\<close> is what stands for \<open>t\<close> among its siblings once \<open>new\<close> is put at
  position \<open>p\<close> of the node \<open>r\<close>.\<close>

fun place :: "position \<Rightarrow> ref \<Rightarrow> tree list \<Rightarrow> tree \<Rightarrow> tree list" where
  "place p r new (Text s) = [Text s]"
| "place p r new (Element l e ts) =
     (if l = r then
        (case p of
           BeforeBegin \<Rightarrow> new @ [Element l e ts]
         | AfterBegin \<Rightarrow> [Element l e (new @ ts)]
         | BeforeEnd \<Rightarrow> [Element l e (ts @ new)]
         | AfterEnd \<Rightarrow> Element l e ts # new)
      else [Element l e (concat (map (place p r new) ts))])"

definition place_in :: "position \<Rightarrow> ref \<Rightarrow> tree list \<Rightarrow> world \<Rightarrow> world" where
  "place_in p r new w = on_forest (\<lambda>ts. concat (map (place p r new) ts)) w"

text \<open>
  \<^verbatim>\<open>el.insertAdjacentElement(position, code)\<close>. Both arguments are converted first
  (anything but an element is a TypeError), then the position is read. Beside a node with
  no parent nothing is inserted and \<^verbatim>\<open>null\<close> comes back; beside the document's own
  child, or under one of its own descendants, the insertion is refused. The node is taken
  out of where it was before it is put in.
\<close>

definition insertAdjacentElement :: "world \<Rightarrow> jsval \<Rightarrow> string \<Rightarrow> jsval \<Rightarrow> jsval result" where
  "insertAdjacentElement w el pos code =
     (case el of
        Node r \<Rightarrow>
          (case code of
             Node c \<Rightarrow>
               (case find_node c (forest w) of
                  None \<Rightarrow> (Inl TypeError, w)
                | Some t \<Rightarrow>
                    (case parse_position pos of
                       None \<Rightarrow> (Inl SyntaxError, w)
                     | Some p \<Rightarrow>
                         if beside p then
                           (if is_root r (document w) then (Inl HierarchyRequestError, w)
                            else if is_root r (detached w) then (Inr Null, w)
                            else if r \<in> set (labels (children t)) then (Inl HierarchyRequestError, w)
                            else if c = r then (Inr code, w)
                            else (Inr code, place_in p r [t] (take_out c w)))
                         else
                           (if r \<in> set (labels [t]) then (Inl HierarchyRequestError, w)
                            else (Inr code, place_in p r [t] (take_out c w)))))
           | _ \<Rightarrow> (Inl TypeError, w))
      | _ \<Rightarrow> (Inl TypeError, w))"

text \<open>\<^verbatim>\<open>el.insertAdjacentHTML(position, text)\<close>: the markup is parsed and its trees put
  at the position; beside a node with no parent, or beside the document's own child, the
  host refuses.\<close>

definition insertAdjacentHTML :: "host \<Rightarrow> world \<Rightarrow> jsval \<Rightarrow> string \<Rightarrow> string \<Rightarrow> jsval result" where
  "insertAdjacentHTML h w el pos code =
     (case el of
        Node r \<Rightarrow>
          (case parse_position pos of
             None \<Rightarrow> (Inl SyntaxError, w)
           | Some p \<Rightarrow>
               if beside p \<and> (is_root r (document w) \<or> is_root r (detached w))
               then (Inl NoModificationAllowedError, w)
               else (case parse h code (fresh w) of
                       (ts, n) \<Rightarrow> (Inr Undefined, place_in p r ts (w\<lparr>fresh := n\<rparr>))))
      | _ \<Rightarrow> (Inl TypeError, w))"

subsubsection \<open>The document\<close>

definition has_id :: "string \<Rightarrow> ref \<times> element \<Rightarrow> bool" where
  "has_id x p = (map_of (attributes (snd p)) ''id'' = Some x)"

text \<open>\<^verbatim>\<open>document.getElementById(x)\<close>: the first element of the document, in tree order,
  whose identifier is \<open>x\<close>; an empty \<^verbatim>\<open>id\<close> attribute is no identifier.\<close>

definition getElementById :: "world \<Rightarrow> string \<Rightarrow> jsval" where
  "getElementById w x =
     (if x = [] then Null
      else (case find (has_id x) (elements_list (document w)) of
              None \<Rightarrow> Null
            | Some (r, e) \<Rightarrow> Node r))"

fun named :: "string \<Rightarrow> tree \<Rightarrow> bool" where
  "named n (Element l e ts) = (localName e = n)"
| "named n (Text s) = False"

text \<open>\<^verbatim>\<open>document.head\<close>: the first \<^verbatim>\<open>head\<close> child of the document's element when
  that is an \<^verbatim>\<open>html\<close> element, or \<^verbatim>\<open>null\<close>.\<close>

definition document_head :: "world \<Rightarrow> jsval" where
  "document_head w =
     (case find is_element (document w) of
        Some (Element r e ts) \<Rightarrow>
          if localName e = ''html''
          then (case find (named ''head'') ts of
                  Some (Element hr he hts) \<Rightarrow> Node hr
                | _ \<Rightarrow> Null)
          else Null
      | _ \<Rightarrow> Null)"

text \<open>\<^verbatim>\<open>el.parentNode\<close>: the document for its children, \<^verbatim>\<open>null\<close> for a node that
  is the child of nothing.\<close>

definition parentNode :: "world \<Rightarrow> ref \<Rightarrow> jsval" where
  "parentNode w r =
     (if is_root r (document w) then Document
      else (case find (\<lambda>t. is_root r (children t)) (concat (map subtrees (forest w))) of
              Some (Element p e ts) \<Rightarrow> Node p
            | _ \<Rightarrow> Null))"

text \<open>
  \<^verbatim>\<open>target.dispatchEvent(new CustomEvent(evt))\<close>: nodes, the document and the window
  are event targets; on anything else there is no such method. The event is recorded;
  running the listeners is the host's business.
\<close>

definition dispatchEvent :: "world \<Rightarrow> jsval \<Rightarrow> string \<Rightarrow> jsval result" where
  "dispatchEvent w target type =
     (case target of
        Node r \<Rightarrow> (Inr Undefined, w\<lparr>dispatched := dispatched w @ [(target, type)]\<rparr>)
      | Document \<Rightarrow> (Inr Undefined, w\<lparr>dispatched := dispatched w @ [(target, type)]\<rparr>)
      | Window \<Rightarrow> (Inr Undefined, w\<lparr>dispatched := dispatched w @ [(target, type)]\<rparr>)
      | _ \<Rightarrow> (Inl TypeError, w))"

section \<open>The library\<close>

subsection \<open>Resolution: \<^verbatim>\<open>$\<close>, \<^verbatim>\<open>get\<close>, \<^verbatim>\<open>exists\<close>\<close>

definition warn :: "jsval \<Rightarrow> world \<Rightarrow> world" where
  "warn v w = w\<lparr>console := console w @ [v]\<rparr>"

text \<open>A parameter with a default takes it when the argument is \<^verbatim>\<open>undefined\<close>.\<close>

definition default_to :: "jsval \<Rightarrow> jsval \<Rightarrow> jsval" where
  "default_to d v = (if v = Undefined then d else v)"

text \<open>\<^verbatim>\<open>get(target, parent=document)\<close>, lines 22 to 28: a string is looked up in the
  parent, anything else is returned as it is; a falsy result is warned of.\<close>

definition get :: "host \<Rightarrow> world \<Rightarrow> jsval \<Rightarrow> jsval \<Rightarrow> jsval result" where
  "get h w target parent =
     (case (case target of
              Str s \<Rightarrow> querySelector h w (default_to Document parent) s
            | _ \<Rightarrow> Inr target) of
        Inl err \<Rightarrow> (Inl err, w)
      | Inr el \<Rightarrow> (Inr el, if \<not> truthy el then warn target w else w))"

text \<open>\<^verbatim>\<open>exists(target, parent=document)\<close>, lines 36 to 39: the same look-up, compared
  with \<^verbatim>\<open>null\<close>, and no warning.\<close>

definition exists :: "host \<Rightarrow> world \<Rightarrow> jsval \<Rightarrow> jsval \<Rightarrow> bool result" where
  "exists h w target parent =
     (case (case target of
              Str s \<Rightarrow> querySelector h w (default_to Document parent) s
            | _ \<Rightarrow> Inr target) of
        Inl err \<Rightarrow> (Inl err, w)
      | Inr el \<Rightarrow> (Inr (el \<noteq> Null), w))"

text \<open>
  \<^verbatim>\<open>$(target)\<close>, lines 6 to 14, the default export. When the target is not a string, the initialiser of \<^verbatim>\<open>el\<close>
  reads \<^verbatim>\<open>el\<close> itself, which is not initialised yet: a ReferenceError. When the
  selector matches nothing, \<^verbatim>\<open>el.on\<close> is read off \<^verbatim>\<open>null\<close>.
\<close>

definition dollar :: "host \<Rightarrow> world \<Rightarrow> jsval \<Rightarrow> jsval result" where
  "dollar h w target =
     (case target of
        Str s \<Rightarrow>
          (case querySelector h w Document s of
             Inl err \<Rightarrow> (Inl err, w)
           | Inr el \<Rightarrow>
               (case el of
                  Node r \<Rightarrow>
                    (Inr el, modify r (\<lambda>e. if \<not> on_prop e then e\<lparr>on_prop := True\<rparr> else e) w)
                | _ \<Rightarrow> (Inl TypeError, w)))
      | _ \<Rightarrow> (Inl ReferenceError, w))"

subsection \<open>Classes: \<^verbatim>\<open>toggle\<close>, \<^verbatim>\<open>show\<close>, \<^verbatim>\<open>hide\<close>\<close>

text \<open>\<^verbatim>\<open>toggle(target, className = 'd-none', force)\<close>, lines 66 to 78;
  \<^verbatim>\<open>show(target, force=true)\<close>, lines 131 to 135; \<^verbatim>\<open>hide(target)\<close>, lines 142 to 145.
  A class name left out is \<open>None\<close>, and so is a force left out.\<close>

definition toggle :: "host \<Rightarrow> world \<Rightarrow> jsval \<Rightarrow> string option \<Rightarrow> bool option \<Rightarrow> jsval result" where
  "toggle h w target className force =
     (let c = (case className of None \<Rightarrow> ''d-none'' | Some c \<Rightarrow> c) in
      bind (get h w target Undefined) (\<lambda>el w.
        bind (if force = Some True then classList_apply token_add w el c
              else if force = Some False then classList_apply token_remove w el c
              else classList_apply token_toggle w el c)
          (\<lambda>_ w. (Inr el, w))))"

definition show_elem :: "host \<Rightarrow> world \<Rightarrow> jsval \<Rightarrow> bool option \<Rightarrow> jsval result" where
  "show_elem h w target force =
     (let force = (case force of None \<Rightarrow> True | Some b \<Rightarrow> b) in
      bind (get h w target Undefined) (\<lambda>el w.
        if force = True then classList_apply token_remove w el ''d-none''
        else classList_apply token_add w el ''d-none''))"

definition hide_elem :: "host \<Rightarrow> world \<Rightarrow> jsval \<Rightarrow> jsval result" where
  "hide_elem h w target =
     bind (get h w target Undefined) (\<lambda>el w. classList_apply token_add w el ''d-none'')"

subsection \<open>Content: \<^verbatim>\<open>update\<close>\<close>

text \<open>The content is a string, or a list whose items are strings or objects with a
  \<^verbatim>\<open>value\<close> and a \<^verbatim>\<open>label\<close>.\<close>

datatype item = ItemStr string | ItemObj string string

datatype content = Content string | ContentList "item list"

fun option_markup :: "item \<Rightarrow> string" where
  "option_markup (ItemObj v l) =
     ''<option value='' @ [CHR 0x22] @ v @ [CHR 0x22] @ ''>'' @ l @ ''</option>''"
| "option_markup (ItemStr s) =
     ''<option value='' @ [CHR 0x22] @ s @ [CHR 0x22] @ ''>'' @ s @ ''</option>''"

fun item_string :: "item \<Rightarrow> string" where
  "item_string (ItemStr s) = s"
| "item_string (ItemObj v l) = ''[object Object]''"

fun join :: "string \<Rightarrow> string list \<Rightarrow> string" where
  "join sep [] = []"
| "join sep [s] = s"
| "join sep (s # t # ts) = s @ sep @ join sep (t # ts)"

fun content_string :: "content \<Rightarrow> string" where
  "content_string (Content s) = s"
| "content_string (ContentList items) = join '','' (map item_string items)"

text \<open>\<^verbatim>\<open>update(target, content, type='html')\<close>, lines 87 to 109. Reading
  \<^verbatim>\<open>tagName\<close> off \<^verbatim>\<open>null\<close> is a TypeError; the document and the window have no
  \<^verbatim>\<open>tagName\<close> and take the assignment as a property of their own, with no effect on the
  tree. On an \<^verbatim>\<open>INPUT\<close> or a \<^verbatim>\<open>TEXTAREA\<close> the content goes through the host's setter
  of \<^verbatim>\<open>value\<close>, which may change it or raise.\<close>

definition update :: "host \<Rightarrow> world \<Rightarrow> jsval \<Rightarrow> content \<Rightarrow> string option \<Rightarrow> jsval result" where
  "update h w target content type =
     (let type = (case type of None \<Rightarrow> ''html'' | Some t \<Rightarrow> t) in
      bind (get h w target Undefined) (\<lambda>el w.
        case el of
          Node r \<Rightarrow>
            (let content =
                   (case content of
                      ContentList items \<Rightarrow>
                        if tagName w r = ''SELECT''
                        then Content (concat (map option_markup items)) else content
                    | Content s \<Rightarrow> content)
             in if tagName w r = ''INPUT'' \<or> tagName w r = ''TEXTAREA''
                then (case element_of w r of
                        None \<Rightarrow> (Inr el, w)
                      | Some e \<Rightarrow>
                          (case assign_value h e (content_string content) of
                             Inl err \<Rightarrow> (Inl err, w)
                           | Inr v \<Rightarrow> (Inr el, modify r (\<lambda>e. e\<lparr>value_prop := v\<rparr>) w)))
                else if type = ''html'' then (Inr el, set_innerHTML h r (content_string content) w)
                else if type = ''text'' then (Inr el, set_textContent r (content_string content) w)
                else (Inr el, w))
        | Undefined \<Rightarrow> (Inl TypeError, w)
        | Null \<Rightarrow> (Inl TypeError, w)
        | Str s \<Rightarrow> (Inl TypeError, w)
        | _ \<Rightarrow> (Inr el, w)))"

subsection \<open>Structure: \<^verbatim>\<open>remove\<close>, \<^verbatim>\<open>append\<close>, \<^verbatim>\<open>create\<close>\<close>

text \<open>\<^verbatim>\<open>remove(target)\<close>, lines 182 to 184, and
  \<^verbatim>\<open>append(target, code, position = 'beforeend')\<close>, lines 228 to 237.\<close>

definition remove :: "host \<Rightarrow> world \<Rightarrow> jsval \<Rightarrow> jsval result" where
  "remove h w target = bind (get h w target Undefined) (\<lambda>el w. remove_node w el)"

definition append_el :: "host \<Rightarrow> world \<Rightarrow> jsval \<Rightarrow> jsval \<Rightarrow> string option \<Rightarrow> jsval result" where
  "append_el h w target code position =
     (let position = (case position of None \<Rightarrow> ''beforeend'' | Some p \<Rightarrow> p) in
      bind (get h w target Undefined) (\<lambda>target w.
        bind (case code of
                Str s \<Rightarrow> insertAdjacentHTML h w target position s
              | _ \<Rightarrow> insertAdjacentElement w target position code)
          (\<lambda>_ w. (Inr target, w))))"

text \<open>\<^verbatim>\<open>attr.replace(/^on/, '')\<close>\<close>

definition strip_on :: "string \<Rightarrow> string" where
  "strip_on attr = (if starts_with ''on'' attr then drop 2 attr else attr)"

text \<open>\<^verbatim>\<open>el.appendChild(v)\<close>: the document is a node that no element takes as a child;
  what is no node at all is a TypeError.\<close>

definition appendChild :: "world \<Rightarrow> jsval \<Rightarrow> jsval \<Rightarrow> jsval result" where
  "appendChild w el child =
     (case child of
        Document \<Rightarrow> (case el of Node r \<Rightarrow> (Inl HierarchyRequestError, w) | _ \<Rightarrow> (Inl TypeError, w))
      | _ \<Rightarrow> insertAdjacentElement w el ''beforeend'' child)"

text \<open>The body of the \<^verbatim>\<open>forEach\<close> over the keys of the attribute map.\<close>

definition apply_attribute :: "host \<Rightarrow> ref \<Rightarrow> string \<times> jsval \<Rightarrow> world \<Rightarrow> jsval result" where
  "apply_attribute h r kv w =
     (case kv of (attr, v) \<Rightarrow>
        if starts_with ''on'' attr \<or> is_function v
        then addEventListener w (Node r) (strip_on attr) v
        else if attr = ''text'' then (Inr Undefined, set_textContent r (to_string_nullable v) w)
        else if attr = ''html'' then (Inr Undefined, set_innerHTML h r (to_string_null_empty v) w)
        else if attr = ''child'' then appendChild w (Node r) v
        else setAttribute h w (Node r) attr (to_string v))"

fun apply_attributes :: "host \<Rightarrow> ref \<Rightarrow> (string \<times> jsval) list \<Rightarrow> world \<Rightarrow> jsval result" where
  "apply_attributes h r [] w = (Inr Undefined, w)"
| "apply_attributes h r (kv # kvs) w =
     bind (apply_attribute h r kv w) (\<lambda>_ w. apply_attributes h r kvs w)"

text \<open>\<^verbatim>\<open>create(tag, attributes = {}, parent, position)\<close>, lines 194 to 219. The
  attribute map is the list of its keys and values, in the order of \<^verbatim>\<open>Object.keys\<close>.\<close>

definition create ::
  "host \<Rightarrow> world \<Rightarrow> string \<Rightarrow> (string \<times> jsval) list \<Rightarrow> jsval \<Rightarrow> string option \<Rightarrow> jsval result" where
  "create h w tag attrs parent position =
     bind (createElement h w tag) (\<lambda>el w.
       bind (case el of Node r \<Rightarrow> apply_attributes h r attrs w | _ \<Rightarrow> (Inl TypeError, w)) (\<lambda>_ w.
         if truthy parent
         then bind (append_el h w parent el position) (\<lambda>_ w. (Inr el, w))
         else (Inr el, w)))"

subsection \<open>Events and resources: \<^verbatim>\<open>dispatch\<close>, \<^verbatim>\<open>load\<close>\<close>

text \<open>\<^verbatim>\<open>dispatch(target, evt)\<close>, lines 244 to 250. No look-up here: the method is
  called on the target as it was given.\<close>

definition dispatch :: "world \<Rightarrow> jsval \<Rightarrow> jsval \<Rightarrow> jsval result" where
  "dispatch w target evt =
     (let (evt, target) = (if \<not> truthy evt then (target, Window) else (evt, target))
      in dispatchEvent w target (to_string evt))"

text \<open>
  The keys of an object come in this order: the array indices (\<^verbatim>\<open>0\<close>, \<^verbatim>\<open>1\<close>, ... written
  without a leading zero, below 4294967295) by their value, then the other keys as they
  were first set.
\<close>

definition is_digit :: "char \<Rightarrow> bool" where
  "is_digit c = (let n = (of_char c :: nat) in 48 \<le> n \<and> n \<le> 57)"

definition digits_value :: "string \<Rightarrow> int" where
  "digits_value s = foldl (\<lambda>acc c. 10 * acc + (of_char c - 48)) 0 s"

definition array_index :: "string \<Rightarrow> int option" where
  "array_index k =
     (if k \<noteq> [] \<and> list_all is_digit k \<and> (k = ''0'' \<or> \<not> starts_with ''0'' k)
         \<and> digits_value k < 4294967295
      then Some (digits_value k) else None)"

definition own_keys :: "(string \<times> 'v) list \<Rightarrow> (string \<times> 'v) list" where
  "own_keys obj =
     sort_key (\<lambda>kv. case array_index (fst kv) of None \<Rightarrow> 0 | Some n \<Rightarrow> n)
       (filter (\<lambda>kv. array_index (fst kv) \<noteq> None) obj)
     @ filter (\<lambda>kv. array_index (fst kv) = None) obj"

text \<open>\<^verbatim>\<open>{...base, ...props}\<close>: a key of \<open>props\<close> that \<open>base\<close> has takes the new value where
  it stands, the others are set after it.\<close>

definition spread :: "(string \<times> jsval) list \<Rightarrow> (string \<times> jsval) list \<Rightarrow> (string \<times> jsval) list" where
  "spread base props = own_keys (fold (\<lambda>kv acc. assoc_set (fst kv) (snd kv) acc) props base)"

definition property :: "(string \<times> jsval) list \<Rightarrow> string \<Rightarrow> jsval" where
  "property obj k = (case map_of obj k of None \<Rightarrow> Undefined | Some v \<Rightarrow> v)"

text \<open>\<^verbatim>\<open>load(src, props = {}, parent = document.head)\<close>, lines 259 to 278.\<close>

definition load :: "host \<Rightarrow> world \<Rightarrow> string \<Rightarrow> (string \<times> jsval) list \<Rightarrow> jsval \<Rightarrow> jsval result" where
  "load h w src props parent =
     (let parent = default_to (document_head w) parent;
          el = (if truthy (property props ''id'')
                then getElementById w (to_string (property props ''id'')) else Null)
      in if truthy (property props ''id'') \<and> truthy el then (Inr el, w)
         else if ends_with ''.css'' src
         then create h w ''link''
                (spread [(''rel'', Str ''stylesheet''), (''href'', Str src)] props) parent None
         else create h w ''script'' (spread [(''src'', Str src)] props) parent None)"

section \<open>What the claims speak of\<close>

text \<open>A target resolves to the node \<open>r\<close>: \<^verbatim>\<open>get(target)\<close> returns it (and then warns of
  nothing).\<close>

definition resolves :: "host \<Rightarrow> world \<Rightarrow> jsval \<Rightarrow> ref \<Rightarrow> bool" where
  "resolves h w target r = (get h w target Undefined = (Inr (Node r), w))"

text \<open>A scope is a node, the document, or left out.\<close>

fun is_scope :: "jsval \<Rightarrow> bool" where
  "is_scope Undefined = True"
| "is_scope Document = True"
| "is_scope (Node r) = True"
| "is_scope v = False"

text \<open>A question \<^verbatim>\<open>exists\<close> can answer: about a node reference, or about a string that
  the host takes as a selector, in a scope.\<close>

fun answerable :: "host \<Rightarrow> jsval \<Rightarrow> jsval \<Rightarrow> bool" where
  "answerable h (Str s) scope = (selector h s \<noteq> None \<and> is_scope scope)"
| "answerable h (Node r) scope = True"
| "answerable h v scope = False"

fun is_match :: "error + jsval \<Rightarrow> bool" where
  "is_match (Inr (Node r)) = True"
| "is_match v = False"

text \<open>The number of elements of the document whose identifier is \<open>x\<close>.\<close>

definition count_id :: "world \<Rightarrow> string \<Rightarrow> nat" where
  "count_id w x = length (filter (has_id x) (elements_list (document w)))"

text \<open>References name one node each, and the next new one is used nowhere.\<close>

definition wellformed :: "world \<Rightarrow> bool" where
  "wellformed w = (distinct (labels (forest w)) \<and> list_all (\<lambda>l. l < fresh w) (labels (forest w)))"

definition hidden :: "host \<Rightarrow> jsval \<Rightarrow> world \<Rightarrow> world" where
  "hidden h t w = snd (hide_elem h w t)"

definition shown :: "host \<Rightarrow> jsval \<Rightarrow> world \<Rightarrow> world" where
  "shown h t w = snd (show_elem h w t None)"

definition round_trip :: "host \<Rightarrow> jsval \<Rightarrow> world \<Rightarrow> world" where
  "round_trip h t w = shown h t (hidden h t w)"

subsection \<open>A host and a page to compute on\<close>

text \<open>
  A small host: the selectors \<^verbatim>\<open>#id\<close>, \<^verbatim>\<open>.class\<close>, \<^verbatim>\<open>tag\<close> and
  \<^verbatim>\<open>:not(.class)\<close>, names made of
  letters, digits, \<^verbatim>\<open>-\<close> and \<^verbatim>\<open>_\<close>, a parser for markup that is plain text, and a
  setter of \<^verbatim>\<open>value\<close> that refuses a file input and takes every other input as a text
  input.
  The page is the one the repository's tests run on, without the white space between
  its tags.
\<close>

definition ident_char :: "char \<Rightarrow> bool" where
  "ident_char c =
     (let n = (of_char c :: nat)
      in (48 \<le> n \<and> n \<le> 57) \<or> (65 \<le> n \<and> n \<le> 90) \<or> (97 \<le> n \<and> n \<le> 122) \<or> n = 45 \<or> n = 95)"

definition is_ident :: "string \<Rightarrow> bool" where
  "is_ident s = (s \<noteq> [] \<and> list_all ident_char s)"

definition example_selector :: "string \<Rightarrow> (tree list \<Rightarrow> ref \<Rightarrow> bool) option" where
  "example_selector s =
     (case s of
        [] \<Rightarrow> None
      | c # name \<Rightarrow>
          if c = CHR ''#'' \<and> is_ident name
          then Some (\<lambda>f r. case map_of (elements_list f) r of
                              None \<Rightarrow> False
                            | Some e \<Rightarrow> map_of (attributes e) ''id'' = Some name)
          else if c = CHR ''.'' \<and> is_ident name
          then Some (\<lambda>f r. case map_of (elements_list f) r of
                              None \<Rightarrow> False
                            | Some e \<Rightarrow> name \<in> set (classList e))
          else if is_ident s
          then Some (\<lambda>f r. case map_of (elements_list f) r of
                              None \<Rightarrow> False
                            | Some e \<Rightarrow> localName e = map to_lower s)
          else if starts_with '':not(.'' s \<and> ends_with '')'' s
                  \<and> is_ident (take (length s - 7) (drop 6 s))
          then Some (\<lambda>f r. case map_of (elements_list f) r of
                              None \<Rightarrow> False
                            | Some e \<Rightarrow> take (length s - 7) (drop 6 s) \<notin> set (classList e))
          else None)"

definition line_break :: "char \<Rightarrow> bool" where
  "line_break c = (of_char c \<in> {10, 13 :: nat})"

definition example_assign :: "element \<Rightarrow> string \<Rightarrow> error + string" where
  "example_assign e s =
     (if localName e = ''input'' \<and> map_of (attributes e) ''type'' = Some ''file''
      then (if s = [] then Inr [] else Inl InvalidStateError)
      else if localName e = ''input'' then Inr (filter (\<lambda>c. \<not> line_break c) s)
      else Inr s)"

definition example_host :: host where
  "example_host =
     \<lparr>selector = example_selector,
      parse = (\<lambda>s n. (if s = [] then [] else [Text s], n)),
      valid_name = is_ident,
      assign_value = example_assign\<rparr>"

definition el :: "string \<Rightarrow> (string \<times> string) list \<Rightarrow> string list \<Rightarrow> element" where
  "el name attrs classes =
     \<lparr>localName = name, attributes = attrs, classList = classes,
      value_prop = [], on_prop = False, listeners = []\<rparr>"

definition test_page :: world where
  "test_page =
     \<lparr>document =
        [Element 0 (el ''html'' [] [])
           [Element 1 (el ''head'' [] []) [],
            Element 2 (el ''body'' [] [])
              [Element 3 (el ''div'' [(''id'', ''test-div'')] [''d-none'']) [],
               Element 4
                 ((el ''input'' [(''id'', ''test-input''), (''type'', ''text''), (''value'', ''initial'')] [])
                    \<lparr>value_prop := ''initial''\<rparr>) [],
               Element 5 (el ''select'' [(''id'', ''test-select'')] [])
                 [Element 6 (el ''option'' [(''value'', ''1'')] []) [Text ''One''],
                  Element 7 (el ''option'' [(''value'', ''2'')] []) [Text ''Two'']],
               Element 8 (el ''button'' [(''id'', ''test-button'')] []) [Text ''Click me'']]]],
      detached = [],
      fresh = 9,
      console = [],
      dispatched = []\<rparr>"

text \<open>Three more pages: one with two hidden elements, one whose document has no
  \<^verbatim>\<open>head\<close>, one where two elements carry the same identifier.\<close>

definition two_hidden_page :: world where
  "two_hidden_page =
     \<lparr>document =
        [Element 0 (el ''html'' [] [])
           [Element 1 (el ''head'' [] []) [],
            Element 2 (el ''body'' [] [])
              [Element 3 (el ''div'' [] [''d-none'']) [],
               Element 4 (el ''div'' [] [''d-none'']) []]]],
      detached = [], fresh = 5, console = [], dispatched = []\<rparr>"

definition headless_page :: world where
  "headless_page =
     \<lparr>document = [Element 0 (el ''html'' [] []) [Element 1 (el ''body'' [] []) []]],
      detached = [], fresh = 2, console = [], dispatched = []\<rparr>"

definition twins_page :: world where
  "twins_page =
     \<lparr>document =
        [Element 0 (el ''html'' [] [])
           [Element 1 (el ''head'' [] []) [],
            Element 2 (el ''body'' [] [])
              [Element 3 (el ''div'' [(''id'', ''x'')] []) [],
               Element 4 (el ''div'' [(''id'', ''x'')] []) []]]],
      detached = [], fresh = 5, console = [], dispatched = []\<rparr>"

section \<open>Facts about the host\<close>

subsection \<open>Walking the forest\<close>

lemma find_append:
  "find P (xs @ ys) = (case find P xs of None \<Rightarrow> find P ys | Some x \<Rightarrow> Some x)"
  by (induction xs) auto

lemma forest_induct [case_names Nil Text Element]:
  assumes base: "P []"
      and leaf: "\<And>s ts. P ts \<Longrightarrow> P (Text s # ts)"
      and inner: "\<And>l e cs ts. P cs \<Longrightarrow> P ts \<Longrightarrow> P (Element l e cs # ts)"
  shows "P ts"
proof -
  have step: "\<forall>ts. P ts \<longrightarrow> P (t # ts)" for t
  proof (induction t)
    case (Element l e cs)
    have "P cs"
      using Element
    proof (induction cs)
      case Nil
      show ?case by (rule base)
    next
      case (Cons c cs)
      then show ?case by simp
    qed
    then show ?case by (simp add: inner)
  next
    case (Text s)
    show ?case by (simp add: leaf)
  qed
  show ?thesis
    by (induction ts) (simp_all add: base step)
qed

lemma elements_list_simps:
  "elements_list [] = []"
  "elements_list (Text s # ts) = elements_list ts"
  "elements_list (Element l e cs # ts) = (l, e) # elements_list cs @ elements_list ts"
  by (simp_all add: elements_list_def)

lemma elements_list_append: "elements_list (ts @ us) = elements_list ts @ elements_list us"
  by (simp add: elements_list_def)

lemma labels_simps:
  "labels [] = []"
  "labels (Text s # ts) = labels ts"
  "labels (Element l e cs # ts) = l # labels cs @ labels ts"
  by (simp_all add: labels_def elements_list_simps)

lemma labels_append: "labels (ts @ us) = labels ts @ labels us"
  by (simp add: labels_def elements_list_append)

lemma find_node_simps:
  "find_node r [] = None"
  "find_node r (Text s # ts) = find_node r ts"
  "find_node r (Element l e cs # ts)
     = (if l = r then Some (Element l e cs)
        else case find_node r cs of None \<Rightarrow> find_node r ts | Some t \<Rightarrow> Some t)"
  by (simp_all add: find_node_def find_append split: option.splits)

lemma find_node_append:
  "find_node r (ts @ us) = (case find_node r ts of None \<Rightarrow> find_node r us | Some x \<Rightarrow> Some x)"
  by (simp add: find_node_def find_append split: option.splits)

lemma find_node_None_iff: "(find_node r ts = None) = (r \<notin> set (labels ts))"
  by (induction ts rule: forest_induct) (auto simp: find_node_simps labels_simps split: option.splits)

lemma find_node_is_node: "find_node r ts = Some t \<Longrightarrow> \<exists>e cs. t = Element r e cs"
  by (induction ts rule: forest_induct) (auto simp: find_node_simps split: option.splits if_splits)

lemma without_simps:
  "without r [] = []"
  "without r (Text s # ts) = Text s # without r ts"
  "without r (Element l e cs # ts)
     = (if l = r then without r ts else Element l e (without r cs) # without r ts)"
  by (simp_all add: without_def)

lemma map_element_absent: "r \<notin> set (labels ts) \<Longrightarrow> map (map_element r f) ts = ts"
  by (induction ts rule: forest_induct) (simp_all add: labels_simps)

lemma replace_children_absent: "r \<notin> set (labels ts) \<Longrightarrow> map (replace_children r cs) ts = ts"
  by (induction ts rule: forest_induct) (simp_all add: labels_simps)

lemma without_absent: "r \<notin> set (labels ts) \<Longrightarrow> without r ts = ts"
  by (induction ts rule: forest_induct) (simp_all add: labels_simps without_simps)

lemma is_root_simps:
  "is_root r [] = False"
  "is_root r (Text s # ts) = is_root r ts"
  "is_root r (Element l e cs # ts) = (l = r \<or> is_root r ts)"
  by (simp_all add: is_root_def)

lemma is_root_absent: "r \<notin> set (labels ts) \<Longrightarrow> \<not> is_root r ts"
  by (induction ts rule: forest_induct) (simp_all add: labels_simps is_root_simps)

lemma find_node_replace_children:
  "find_node r ts = Some (Element l e old) \<Longrightarrow>
   find_node r (map (replace_children r cs) ts) = Some (Element l e cs)"
proof (induction ts rule: forest_induct)
  case Nil
  then show ?case by (simp add: find_node_simps)
next
  case (Text s ts)
  then show ?case by (simp add: find_node_simps)
next
  case (Element l' e' cs' ts)
  show ?case
  proof (cases "l' = r")
    case True
    with Element.prems show ?thesis by (simp add: find_node_simps)
  next
    case False
    show ?thesis
    proof (cases "find_node r cs'")
      case None
      then have "map (replace_children r cs) cs' = cs'"
        by (simp add: find_node_None_iff replace_children_absent)
      with None False Element show ?thesis by (simp add: find_node_simps)
    next
      case (Some t)
      with False Element show ?thesis by (simp add: find_node_simps)
    qed
  qed
qed

lemma text_of_map_element: "text_of (map_element r f t) = text_of t"
  by (induction t) (simp_all cong: map_cong)

lemma find_node_map_element:
  "find_node k (map (map_element r f) ts) = map_option (map_element r f) (find_node k ts)"
  by (induction ts rule: forest_induct) (auto simp: find_node_simps split: option.splits)

lemma textContent_modify: "textContent (modify r f w) k = textContent w k"
  by (simp add: textContent_def modify_def on_forest_def forest_def find_node_map_element
        option.map_comp comp_def text_of_map_element flip: map_append)

subsection \<open>Changing one element\<close>

lemma elements_map_element:
  "elements (map_element r f t) = map (\<lambda>p. (fst p, if fst p = r then f (snd p) else snd p)) (elements t)"
  by (induction t) (simp_all add: map_concat cong: map_cong)

lemma elements_list_map_element:
  "elements_list (map (map_element r f) ts)
     = map (\<lambda>p. (fst p, if fst p = r then f (snd p) else snd p)) (elements_list ts)"
  by (simp add: elements_list_def map_concat elements_map_element cong: map_cong)

lemma map_of_relabel:
  "map_of (map (\<lambda>p. (fst p, g (fst p) (snd p))) xs) k = map_option (g k) (map_of xs k)"
  by (induction xs) auto

lemma element_of_modify:
  "element_of (modify r f w) k = (if k = r then map_option f (element_of w k) else element_of w k)"
proof -
  have "element_of (modify r f w) k
        = map_of (map (\<lambda>p. (fst p, (\<lambda>l e. if l = r then f e else e) (fst p) (snd p)))
            (elements_list (forest w))) k"
    by (simp add: element_of_def modify_def on_forest_def forest_def elements_list_map_element
         flip: map_append)
  also have "\<dots> = map_option (\<lambda>e. if k = r then f e else e) (element_of w k)"
    unfolding element_of_def
    by (rule map_of_relabel [where g = "\<lambda>l e. if l = r then f e else e"])
  finally show ?thesis by (cases "element_of w k") auto
qed

lemma map_element_comp:
  "map_element r f (map_element r g t) = map_element r (\<lambda>e. f (g e)) t"
  by (induction t) simp_all

lemma modify_modify:
  "modify r f (modify r g w) = modify r (\<lambda>e. f (g e)) w"
  by (simp add: modify_def on_forest_def map_element_comp)

lemma token_remove_add: "token_remove c (token_add c cs) = token_remove c cs"
  by (simp add: token_remove_def token_add_def)

lemma token_add_remove_set: "c \<in> set cs \<Longrightarrow> set (token_add c (token_remove c cs)) = set cs"
  by (auto simp add: token_remove_def token_add_def)

lemma token_toggle_twice: "set (token_toggle c (token_toggle c cs)) = set cs"
  by (auto simp add: token_toggle_def token_remove_def token_add_def)

lemma token_add_idem: "token_add c (token_add c cs) = token_add c cs"
  by (simp add: token_add_def)

lemma token_remove_idem: "token_remove c (token_remove c cs) = token_remove c cs"
  by (simp add: token_remove_def)

lemma has_class_modify:
  "has_class (modify r f w) r c
     = (case element_of w r of None \<Rightarrow> False | Some e \<Rightarrow> c \<in> set (classList (f e)))"
  by (simp add: has_class_def element_of_modify split: option.splits)

lemma toggle_resolved:
  assumes "check_token c = None" and "resolves h w t r"
  shows "toggle h w t (Some c) force
         = (Inr (Node r),
            modify r (\<lambda>e. e\<lparr>classList :=
               (if force = Some True then token_add c
                else if force = Some False then token_remove c
                else token_toggle c) (classList e)\<rparr>) w)"
  using assms by (simp add: toggle_def resolves_def bind_def classList_apply_def)

lemma toggle_bad_token:
  assumes "check_token c = Some err" and "resolves h w t r"
  shows "toggle h w t (Some c) force = (Inl err, w)"
  using assms by (simp add: toggle_def resolves_def bind_def classList_apply_def)

lemma check_d_none: "check_token ''d-none'' = None"
  by code_simp

lemma hide_resolved:
  assumes "resolves h w t r"
  shows "hide_elem h w t
         = (Inr Undefined, modify r (\<lambda>e. e\<lparr>classList := token_add ''d-none'' (classList e)\<rparr>) w)"
  using assms by (simp add: hide_elem_def resolves_def bind_def classList_apply_def check_d_none)

lemma show_resolved:
  assumes "resolves h w t r"
  shows "show_elem h w t None
         = (Inr Undefined, modify r (\<lambda>e. e\<lparr>classList := token_remove ''d-none'' (classList e)\<rparr>) w)"
  using assms by (simp add: show_elem_def resolves_def bind_def classList_apply_def check_d_none)

lemma round_trip_resolved:
  assumes "resolves h w t r" and "resolves h (hidden h t w) t r"
  shows "hidden h t w = modify r (\<lambda>e. e\<lparr>classList := token_add ''d-none'' (classList e)\<rparr>) w"
    and "round_trip h t w = modify r (\<lambda>e. e\<lparr>classList := token_remove ''d-none'' (classList e)\<rparr>) w"
proof -
  show 1: "hidden h t w = modify r (\<lambda>e. e\<lparr>classList := token_add ''d-none'' (classList e)\<rparr>) w"
    by (simp add: hidden_def hide_resolved [OF assms(1)])
  from assms(2) show "round_trip h t w
        = modify r (\<lambda>e. e\<lparr>classList := token_remove ''d-none'' (classList e)\<rparr>) w"
    unfolding round_trip_def shown_def 1
    by (simp add: show_resolved modify_modify token_remove_add)
qed

subsection \<open>Replacing the children of a node\<close>

lemma element_of_None_iff: "(element_of w r = None) = (r \<notin> set (labels (forest w)))"
  by (simp add: element_of_def labels_def map_of_eq_None_iff)

lemma forest_set_children:
  "forest (set_children r cs w)
     = map (replace_children r cs) (forest w) @ filter is_element (children_of w r)"
  by (simp add: set_children_def Let_def on_forest_def forest_def)

lemma find_node_set_children:
  assumes "find_node r (forest w) = Some (Element l e old)"
  shows "find_node r (forest (set_children r cs w)) = Some (Element l e cs)"
  by (simp add: forest_set_children find_node_append find_node_replace_children [OF assms])

lemma textContent_set_textContent:
  assumes "r \<in> set (labels (forest w))"
  shows "textContent (set_textContent r s w) r = Some s"
    and "children_of (set_textContent r s w) r = (if s = [] then [] else [Text s])"
proof -
  from assms obtain t where "find_node r (forest w) = Some t"
    using find_node_None_iff [of r "forest w"] by auto
  moreover from this obtain e old where "t = Element r e old"
    using find_node_is_node by blast
  ultimately have "find_node r (forest w) = Some (Element r e old)" by simp
  note found = find_node_set_children [OF this]
  show "textContent (set_textContent r s w) r = Some s"
    by (simp add: textContent_def set_textContent_def found)
  show "children_of (set_textContent r s w) r = (if s = [] then [] else [Text s])"
    by (simp add: children_of_def set_textContent_def found)
qed

lemma update_text_resolved:
  assumes "resolves h w t r" and "tagName w r \<noteq> ''INPUT''" and "tagName w r \<noteq> ''TEXTAREA''"
  shows "update h w t (Content X) (Some ''text'') = (Inr (Node r), set_textContent r X w)"
  using assms by (simp add: update_def resolves_def bind_def)

lemma update_form_control:
  assumes "resolves h w t r" and "tagName w r = ''INPUT'' \<or> tagName w r = ''TEXTAREA''"
  shows "textContent (snd (update h w t content type)) k = textContent w k"
  using assms
  by (auto simp: update_def resolves_def bind_def Let_def textContent_modify
           split: option.splits sum.splits content.splits)

subsection \<open>A new element\<close>

lemma fresh_absent: "wellformed w \<Longrightarrow> fresh w \<notin> set (labels (forest w))"
  by (auto simp: wellformed_def list_all_iff)

lemma createElement_wellformed:
  assumes "wellformed w"
  shows "wellformed (snd (createElement h w tag))"
proof (cases "valid_name h tag")
  case True
  from assms have "fresh w \<notin> set (labels (forest w))" by (rule fresh_absent)
  with assms True show ?thesis
    by (auto simp: createElement_def wellformed_def forest_def labels_append labels_simps
          list_all_iff less_Suc_eq)
next
  case False
  with assms show ?thesis by (simp add: createElement_def)
qed

lemma modify_absent_appended:
  assumes "r \<notin> set (labels (forest w))"
  shows "modify r f (w\<lparr>detached := detached w @ [Element r e cs], fresh := k\<rparr>)
         = w\<lparr>detached := detached w @ [Element r (f e) (map (map_element r f) cs)], fresh := k\<rparr>"
  using assms
  by (simp add: modify_def on_forest_def forest_def labels_append map_element_absent)

lemma set_children_absent_appended:
  assumes "r \<notin> set (labels (forest w))"
  shows "set_children r new (w\<lparr>detached := detached w @ [Element r e []], fresh := k\<rparr>)
         = w\<lparr>detached := detached w @ [Element r e new], fresh := k\<rparr>"
proof -
  have "find_node r (document w @ detached w @ [Element r e []]) = Some (Element r e [])"
    using assms
    by (simp add: find_node_append find_node_simps forest_def labels_append
          find_node_None_iff [THEN iffD2])
  then show ?thesis
    using assms
    by (simp add: set_children_def Let_def on_forest_def forest_def labels_append children_of_def
          replace_children_absent)
qed

lemma find_parent_simps:
  "find P (concat (map subtrees [])) = None"
  "find P (concat (map subtrees (Text s # ts))) = find P (concat (map subtrees ts))"
  "find P (concat (map subtrees (Element l e cs # ts)))
     = (if P (Element l e cs) then Some (Element l e cs)
        else case find P (concat (map subtrees cs)) of
               None \<Rightarrow> find P (concat (map subtrees ts))
             | Some t \<Rightarrow> Some t)"
  by (simp_all add: find_append split: option.splits)

lemma no_parent_absent:
  "r \<notin> set (labels ts) \<Longrightarrow> find (\<lambda>t. is_root r (children t)) (concat (map subtrees ts)) = None"
proof (induction ts rule: forest_induct)
  case Nil
  show ?case by simp
next
  case (Text s ts)
  then show ?case by (simp add: labels_simps)
next
  case (Element l e cs ts)
  then show ?case
    by (simp only: find_parent_simps) (simp add: labels_simps is_root_absent)
qed

lemma observe_appended:
  assumes "r \<notin> set (labels (forest w))"
  shows "element_of (w\<lparr>detached := detached w @ [Element r e cs], fresh := k\<rparr>) r = Some e"
    and "find_node r (forest (w\<lparr>detached := detached w @ [Element r e cs], fresh := k\<rparr>))
           = Some (Element r e cs)"
    and "r \<notin> set (labels cs) \<Longrightarrow>
         parentNode (w\<lparr>detached := detached w @ [Element r e cs], fresh := k\<rparr>) r = Null"
proof -
  let ?w = "w\<lparr>detached := detached w @ [Element r e cs], fresh := k\<rparr>"
  have f: "forest ?w = forest w @ [Element r e cs]" by (simp add: forest_def)
  from assms have "map_of (elements_list (forest w)) r = None"
    by (simp add: labels_def map_of_eq_None_iff)
  then show "element_of ?w r = Some e"
    by (simp add: element_of_def f elements_list_append elements_list_simps map_add_def)
  from assms show "find_node r (forest ?w) = Some (Element r e cs)"
    by (simp add: f find_node_append find_node_simps find_node_None_iff [THEN iffD2])
  assume "r \<notin> set (labels cs)"
  with assms show "parentNode ?w r = Null"
    unfolding parentNode_def f
    by (simp add: find_append no_parent_absent is_root_absent forest_def labels_append)
qed

lemma to_lower_letters:
  "to_lower CHR ''a'' = CHR ''a''"
  "to_lower CHR ''b'' = CHR ''b''"
  "to_lower CHR ''c'' = CHR ''c''"
  "to_lower CHR ''d'' = CHR ''d''"
  "to_lower CHR ''e'' = CHR ''e''"
  "to_lower CHR ''f'' = CHR ''f''"
  "to_lower CHR ''g'' = CHR ''g''"
  "to_lower CHR ''h'' = CHR ''h''"
  "to_lower CHR ''i'' = CHR ''i''"
  "to_lower CHR ''j'' = CHR ''j''"
  "to_lower CHR ''k'' = CHR ''k''"
  "to_lower CHR ''l'' = CHR ''l''"
  "to_lower CHR ''m'' = CHR ''m''"
  "to_lower CHR ''n'' = CHR ''n''"
  "to_lower CHR ''o'' = CHR ''o''"
  "to_lower CHR ''p'' = CHR ''p''"
  "to_lower CHR ''q'' = CHR ''q''"
  "to_lower CHR ''r'' = CHR ''r''"
  "to_lower CHR ''s'' = CHR ''s''"
  "to_lower CHR ''t'' = CHR ''t''"
  "to_lower CHR ''u'' = CHR ''u''"
  "to_lower CHR ''v'' = CHR ''v''"
  "to_lower CHR ''w'' = CHR ''w''"
  "to_lower CHR ''x'' = CHR ''x''"
  "to_lower CHR ''y'' = CHR ''y''"
  "to_lower CHR ''z'' = CHR ''z''"
  by code_simp+

lemma not_on: "\<not> starts_with ''on'' ''id''" "\<not> starts_with ''on'' ''text''"
  by code_simp+

subsection \<open>Inserting under the head\<close>

lemma place_forest_simps:
  "concat (map (place p r new) []) = []"
  "concat (map (place p r new) (Text s # ts)) = Text s # concat (map (place p r new) ts)"
  "l \<noteq> r \<Longrightarrow> concat (map (place p r new) (Element l e cs # ts))
     = Element l e (concat (map (place p r new) cs)) # concat (map (place p r new) ts)"
  "concat (map (place BeforeEnd r new) (Element r e cs # ts))
     = Element r e (cs @ new) # concat (map (place BeforeEnd r new) ts)"
  by simp_all

lemma place_absent: "r \<notin> set (labels ts) \<Longrightarrow> concat (map (place p r new) ts) = ts"
  by (induction ts rule: forest_induct) (simp_all add: labels_simps)

lemma filter_elements_place:
  assumes "distinct (labels ts)" and "r \<in> set (labels ts)"
      and "filter P (elements_list ts) = []"
  shows "filter P (elements_list (concat (map (place BeforeEnd r new) ts)))
         = filter P (elements_list new)"
  using assms
proof (induction ts rule: forest_induct)
  case Nil
  then show ?case by (simp add: labels_simps)
next
  case (Text s ts)
  then show ?case by (simp add: labels_simps elements_list_simps)
next
  case (Element l e cs ts)
  from Element.prems(1) have d: "distinct (labels cs)" "distinct (labels ts)"
    "l \<notin> set (labels cs)" "l \<notin> set (labels ts)" "set (labels cs) \<inter> set (labels ts) = {}"
    by (auto simp: labels_simps)
  from Element.prems(3) have f: "\<not> P (l, e)" "filter P (elements_list cs) = []"
    "filter P (elements_list ts) = []"
    by (auto simp: elements_list_simps split: if_splits)
  consider "r = l" | "r \<noteq> l" "r \<in> set (labels cs)" | "r \<noteq> l" "r \<in> set (labels ts)"
    using Element.prems(2) by (auto simp: labels_simps)
  then show ?case
  proof cases
    case 1
    with d have "concat (map (place BeforeEnd r new) ts) = ts" by (simp add: place_absent)
    with 1 f show ?thesis
      by (simp add: elements_list_simps elements_list_append)
  next
    case 2
    with d have "r \<notin> set (labels ts)" by auto
    then have "concat (map (place BeforeEnd r new) ts) = ts" by (simp add: place_absent)
    with 2 f d Element.IH(1) show ?thesis
      by (simp add: elements_list_simps)
  next
    case 3
    with d have "r \<notin> set (labels cs)" by auto
    then have "concat (map (place BeforeEnd r new) cs) = cs" by (simp add: place_absent)
    with 3 f d Element.IH(2) show ?thesis
      by (simp add: elements_list_simps)
  qed
qed

lemma find_filter: "find P xs = (case filter P xs of [] \<Rightarrow> None | y # ys \<Rightarrow> Some y)"
  by (induction xs) auto

lemma labels_member: "t \<in> set ts \<Longrightarrow> set (labels [t]) \<subseteq> set (labels ts)"
  by (auto simp: labels_def elements_list_def)

lemma find_member: "find P xs = Some x \<Longrightarrow> x \<in> set xs"
  by (auto simp: find_Some_iff)

lemma head_in_document:
  assumes "document_head w = Node hr"
  shows "hr \<in> set (labels (document w))"
proof -
  from assms obtain r e ts where root: "find is_element (document w) = Some (Element r e ts)"
    by (auto simp: document_head_def split: option.splits tree.splits)
  with assms obtain he hts where "find (named ''head'') ts = Some (Element hr he hts)"
    by (auto simp: document_head_def split: option.splits tree.splits if_splits)
  then have "Element hr he hts \<in> set ts" by (rule find_member)
  then have "set (labels [Element hr he hts]) \<subseteq> set (labels ts)" by (rule labels_member)
  then have "hr \<in> set (labels [Element r e ts])" by (auto simp: labels_simps)
  moreover have "set (labels [Element r e ts]) \<subseteq> set (labels (document w))"
    by (rule labels_member) (rule find_member [OF root])
  ultimately show ?thesis by auto
qed

lemma without_append: "without r (ts @ us) = without r ts @ without r us"
  by (simp add: without_def)

lemma take_out_appended:
  assumes "r \<notin> set (labels (forest w))"
  shows "take_out r (w\<lparr>detached := detached w @ [Element r e cs], fresh := k\<rparr>) = w\<lparr>fresh := k\<rparr>"
  using assms
  by (simp add: take_out_def on_forest_def forest_def labels_append without_append without_absent
        without_simps)

lemma place_in_document:
  assumes "r \<notin> set (labels (detached w))"
  shows "place_in p r new w = w\<lparr>document := concat (map (place p r new) (document w))\<rparr>"
  using assms by (simp add: place_in_def on_forest_def place_absent)

lemma beforeend: "parse_position ''beforeend'' = Some BeforeEnd"
  by code_simp

lemma insert_new_element:
  assumes "wellformed w" and "hr \<in> set (labels (document w))"
  shows "insertAdjacentElement (w\<lparr>detached := detached w @ [Element (fresh w) e []], fresh := k\<rparr>)
           (Node hr) ''beforeend'' (Node (fresh w))
         = (Inr (Node (fresh w)),
            w\<lparr>document := concat (map (place BeforeEnd hr [Element (fresh w) e []]) (document w)),
              fresh := k\<rparr>)"
proof -
  note absent = fresh_absent [OF assms(1)]
  from assms(2) absent have ne: "hr \<noteq> fresh w" by (auto simp: forest_def labels_append)
  from assms have "hr \<notin> set (labels (detached w))"
    by (auto simp: wellformed_def forest_def labels_append)
  then have "place_in BeforeEnd hr new (w\<lparr>fresh := k\<rparr>)
             = w\<lparr>document := concat (map (place BeforeEnd hr new) (document w)), fresh := k\<rparr>" for new
    by (simp add: place_in_document)
  then show ?thesis
    using ne
    by (simp add: insertAdjacentElement_def observe_appended(2) [OF absent] beforeend
          take_out_appended [OF absent] labels_simps)
qed


lemma not_on_names:
  "\<not> starts_with ''on'' ''rel''" "\<not> starts_with ''on'' ''href''" "\<not> starts_with ''on'' ''src''"
  by code_simp+

lemma append_new_element:
  assumes "wellformed w" and "hr \<in> set (labels (document w))"
  shows "append_el h (w\<lparr>detached := detached w @ [Element (fresh w) e []], fresh := k\<rparr>)
           (Node hr) (Node (fresh w)) None
         = (Inr (Node hr),
            w\<lparr>document := concat (map (place BeforeEnd hr [Element (fresh w) e []]) (document w)),
              fresh := k\<rparr>)"
  by (simp add: append_el_def get_def bind_def insert_new_element [OF assms])

lemma create_link:
  assumes "wellformed w" and "hr \<in> set (labels (document w))"
      and "valid_name h ''link''" and "valid_name h ''rel''" and "valid_name h ''href''"
      and "valid_name h ''id''"
  shows "create h w ''link'' [(''rel'', Str ''stylesheet''), (''href'', Str src), (''id'', Str x)]
           (Node hr) None
         = (Inr (Node (fresh w)),
            w\<lparr>document := concat (map (place BeforeEnd hr
                 [Element (fresh w)
                    \<lparr>localName = ''link'',
                     attributes = [(''rel'', ''stylesheet''), (''href'', src), (''id'', x)],
                     classList = [], value_prop = [], on_prop = False, listeners = []\<rparr> []])
                 (document w)),
              fresh := Suc (fresh w)\<rparr>)"
proof -
  note absent = fresh_absent [OF assms(1)]
  show ?thesis
    using assms(3-6)
    by (simp add: create_def createElement_def bind_def apply_attribute_def not_on not_on_names
          to_lower_letters setAttribute_def modify_absent_appended [OF absent]
          append_new_element [OF assms(1,2)])
qed

lemma create_script:
  assumes "wellformed w" and "hr \<in> set (labels (document w))"
      and "valid_name h ''script''" and "valid_name h ''src''" and "valid_name h ''id''"
  shows "create h w ''script'' [(''src'', Str src), (''id'', Str x)] (Node hr) None
         = (Inr (Node (fresh w)),
            w\<lparr>document := concat (map (place BeforeEnd hr
                 [Element (fresh w)
                    \<lparr>localName = ''script'', attributes = [(''src'', src), (''id'', x)],
                     classList = [], value_prop = [], on_prop = False, listeners = []\<rparr> []])
                 (document w)),
              fresh := Suc (fresh w)\<rparr>)"
proof -
  note absent = fresh_absent [OF assms(1)]
  show ?thesis
    using assms(3-5)
    by (simp add: create_def createElement_def bind_def apply_attribute_def not_on not_on_names
          to_lower_letters setAttribute_def modify_absent_appended [OF absent]
          append_new_element [OF assms(1,2)])
qed

lemma getElementById_found:
  assumes "x \<noteq> []" and "filter (has_id x) (elements_list (document w)) = [(r, e)]"
  shows "getElementById w x = Node r"
  using assms by (simp add: getElementById_def find_filter)

lemma getElementById_Null:
  assumes "x \<noteq> []" and "getElementById w x = Null"
  shows "filter (has_id x) (elements_list (document w)) = []"
  using assms
  by (auto simp: getElementById_def find_filter split: option.splits list.splits)

lemma getElementById_Node_or_Null: "getElementById w x = Null \<or> (\<exists>r. getElementById w x = Node r)"
  by (auto simp: getElementById_def split: option.splits)

lemma getElementById_counted:
  assumes "getElementById w x = Node r"
  shows "1 \<le> count_id w x"
  using assms
  by (cases "filter (has_id x) (elements_list (document w))")
     (auto simp: getElementById_def count_id_def find_filter split: if_splits)

lemma no_array_index:
  "array_index ''rel'' = None" "array_index ''href'' = None" "array_index ''src'' = None"
  "array_index ''id'' = None"
  by code_simp+

lemma load_plain:
  "load h w src [(''id'', Str x)] Undefined
     = (if x \<noteq> [] \<and> getElementById w x \<noteq> Null then (Inr (getElementById w x), w)
        else if ends_with ''.css'' src
        then create h w ''link'' [(''rel'', Str ''stylesheet''), (''href'', Str src), (''id'', Str x)]
               (document_head w) None
        else create h w ''script'' [(''src'', Str src), (''id'', Str x)] (document_head w) None)"
  using getElementById_Node_or_Null [of w x]
  by (auto simp: load_def Let_def property_def default_to_def spread_def own_keys_def
        no_array_index)

subsection \<open>Looking up\<close>

lemma node_reference_resolves: "resolves h w (Node r) r"
  by (simp add: resolves_def get_def)

lemma selector_resolves_to_node:
  assumes "resolves h w (Str s) r"
  shows "r \<in> set (labels (document w))"
proof -
  from assms have "querySelector h w Document s = Inr (Node r)"
    by (auto simp: resolves_def get_def default_to_def split: sum.splits)
  then obtain p e where "find (\<lambda>(r, e). p (forest w) r) (elements_list (document w)) = Some (r, e)"
    by (auto simp: querySelector_def query_def split: option.splits)
  then have "(r, e) \<in> set (elements_list (document w))" by (rule find_member)
  then show ?thesis by (force simp: labels_def)
qed

lemma exists_in_document:
  assumes "selector h s = Some p"
  shows "exists h w (Str s) Undefined
         = (Inr (\<exists>x \<in> set (elements_list (document w)). p (forest w) (fst x)), w)"
proof (cases "find (\<lambda>(r, e). p (forest w) r) (elements_list (document w))")
  case None
  then have "\<not> (\<exists>x \<in> set (elements_list (document w)). p (forest w) (fst x))"
    by (auto simp: find_None_iff)
  with None assms show ?thesis
    by (simp add: exists_def querySelector_def query_def default_to_def)
next
  case (Some x)
  then have "x \<in> set (elements_list (document w))" by (rule find_member)
  moreover from Some have "p (forest w) (fst x)"
    by (cases x) (auto simp: find_Some_iff)
  ultimately have "\<exists>x \<in> set (elements_list (document w)). p (forest w) (fst x)" by blast
  with Some assms show ?thesis
    by (simp add: exists_def querySelector_def query_def default_to_def split: prod.splits)
qed

section \<open>Resolution\<close>

text \<open>
  C7. For every target and scope, \<^verbatim>\<open>get\<close> leaves the document tree as it was: no node
  is created, removed or changed, in the document or outside it (only the console may
  grow). When the target is a node reference, \<^verbatim>\<open>get\<close> returns that very reference.
\<close>

theorem get_leaves_tree:
  "document (snd (get h w target scope)) = document w
   \<and> detached (snd (get h w target scope)) = detached w
   \<and> fresh (snd (get h w target scope)) = fresh w
   \<and> dispatched (snd (get h w target scope)) = dispatched w
   \<and> get h w (Node r) scope = (Inr (Node r), w)"
  by (simp add: get_def warn_def split: jsval.splits sum.splits)

theorem get_leaves_tree_witness:
  "document (snd (get example_host test_page (Str ''#non-existent'') Undefined)) = document test_page
   \<and> detached (snd (get example_host test_page (Str ''#non-existent'') Undefined)) = detached test_page
   \<and> fresh (snd (get example_host test_page (Str ''#non-existent'') Undefined)) = fresh test_page
   \<and> dispatched (snd (get example_host test_page (Str ''#non-existent'') Undefined)) = dispatched test_page
   \<and> get example_host test_page (Node 3) Undefined = (Inr (Node 3), test_page)"
  by (rule get_leaves_tree)

text \<open>
  C6, as the code has it. In all cases \<^verbatim>\<open>exists\<close> emits no diagnostic and changes
  nothing. When the target is a node reference, or a string that the host takes as a
  selector with a scope that is a node, the document or left out, \<^verbatim>\<open>exists\<close> does not
  throw and returns \<^verbatim>\<open>true\<close> exactly when resolving the target in the scope gives a
  node, and \<^verbatim>\<open>false\<close> otherwise. On every other string target it throws.
\<close>

theorem exists_true_iff_match:
  "snd (exists h w target scope) = w
   \<and> (answerable h target scope \<longrightarrow>
        exists h w target scope = (Inr (is_match (fst (get h w target scope))), w))
   \<and> (is_string target \<and> \<not> answerable h target scope \<longrightarrow>
        (\<exists>err. fst (exists h w target scope) = Inl err))"
proof (intro conjI impI)
  show "snd (exists h w target scope) = w"
    by (simp add: exists_def split: sum.splits jsval.splits)
next
  assume ok: "answerable h target scope"
  show "exists h w target scope = (Inr (is_match (fst (get h w target scope))), w)"
  proof (cases target)
    case (Str s)
    with ok obtain p where p: "selector h s = Some p" and sc: "is_scope scope" by auto
    from sc show ?thesis
      by (cases scope)
         (auto simp: Str p exists_def get_def querySelector_def query_def default_to_def
               split: option.splits)
  next
    case (Node r)
    then show ?thesis by (simp add: exists_def get_def)
  qed (use ok in simp_all)
next
  assume "is_string target \<and> \<not> answerable h target scope"
  then obtain s where s: "target = Str s" and no: "selector h s = None \<or> \<not> is_scope scope"
    by (cases target) auto
  show "\<exists>err. fst (exists h w target scope) = Inl err"
  proof (cases "is_scope scope")
    case False
    then show ?thesis
      by (cases scope) (simp_all add: s exists_def querySelector_def default_to_def)
  next
    case True
    with no have "selector h s = None" by simp
    with True show ?thesis
      by (cases scope) (simp_all add: s exists_def querySelector_def query_def default_to_def)
  qed
qed

theorem exists_true_iff_match_witness:
  "answerable example_host (Str ''#non-existent'') Undefined
   \<and> answerable example_host (Str ''#test-input'') (Node 2)
   \<and> exists example_host test_page (Str ''#non-existent'') Undefined
       = (Inr (is_match (fst (get example_host test_page (Str ''#non-existent'') Undefined))), test_page)
   \<and> fst (exists example_host test_page (Str ''#non-existent'') Undefined) = Inr False
   \<and> exists example_host test_page (Str ''#test-input'') (Node 2)
       = (Inr (is_match (fst (get example_host test_page (Str ''#test-input'') (Node 2)))), test_page)
   \<and> fst (exists example_host test_page (Str ''#test-input'') (Node 2)) = Inr True"
proof -
  have a: "answerable example_host (Str ''#non-existent'') Undefined" by code_simp
  have b: "answerable example_host (Str ''#test-input'') (Node 2)" by code_simp
  have c: "fst (exists example_host test_page (Str ''#non-existent'') Undefined) = Inr False"
    by code_simp
  have d: "fst (exists example_host test_page (Str ''#test-input'') (Node 2)) = Inr True"
    by code_simp
  from exists_true_iff_match [of example_host test_page "Str ''#non-existent''" Undefined]
       exists_true_iff_match [of example_host test_page "Str ''#test-input''" "Node 2"]
       a b c d
  show ?thesis by blast
qed

text \<open>
  C6 as stated fails: \<^verbatim>\<open>exists('')\<close> raises a SyntaxError, the empty string being no
  selector, and \<^verbatim>\<open>exists('#test-div', null)\<close> raises a TypeError, the look-up being
  called on \<^verbatim>\<open>null\<close>.
\<close>

theorem exists_raises_counterexample:
  "fst (exists example_host test_page (Str []) Undefined) = Inl SyntaxError
   \<and> fst (exists example_host test_page (Str ''#test-div'') Null) = Inl TypeError"
  by code_simp

text \<open>
  C10. For every target that is not a string, \<^verbatim>\<open>$\<close> fails with a ReferenceError and
  changes nothing: the branch for references reads the binding being initialised, not
  the argument, so the given node is never returned.
\<close>

theorem dollar_non_string:
  "\<not> is_string target \<Longrightarrow> dollar h w target = (Inl ReferenceError, w)"
  by (cases target) (simp_all add: dollar_def)

theorem dollar_non_string_witness:
  "\<not> is_string (Node 3) \<and> dollar example_host test_page (Node 3) = (Inl ReferenceError, test_page)"
  using dollar_non_string [of "Node 3" example_host test_page] by simp

section \<open>Removal\<close>

text \<open>
  C1, as the code has it. For every selector that matches no node of the document,
  \<^verbatim>\<open>remove\<close> warns once, naming the selector, and then fails with a TypeError (it calls
  \<^verbatim>\<open>remove\<close> on the \<^verbatim>\<open>null\<close> that \<^verbatim>\<open>get\<close> returned); the tree is left as it was.
\<close>

theorem remove_unmatched_selector:
  assumes "querySelector h w Document s = Inr Null"
  shows "remove h w (Str s) = (Inl TypeError, warn (Str s) w)
         \<and> console (snd (remove h w (Str s))) = console w @ [Str s]
         \<and> document (snd (remove h w (Str s))) = document w
         \<and> detached (snd (remove h w (Str s))) = detached w"
  using assms
  by (simp add: remove_def get_def bind_def remove_node_def default_to_def warn_def)

theorem remove_unmatched_selector_witness:
  "querySelector example_host test_page Document ''#non-existent'' = Inr Null
   \<and> remove example_host test_page (Str ''#non-existent'')
       = (Inl TypeError, warn (Str ''#non-existent'') test_page)"
proof -
  have a: "querySelector example_host test_page Document ''#non-existent'' = Inr Null"
    by code_simp
  from remove_unmatched_selector [OF a] a show ?thesis by blast
qed

text \<open>C1 as stated fails: on the test page, \<^verbatim>\<open>remove('#non-existent')\<close> raises.\<close>

theorem remove_raises_counterexample:
  "querySelector example_host test_page Document ''#non-existent'' = Inr Null
   \<and> fst (remove example_host test_page (Str ''#non-existent'')) = Inl TypeError"
  by code_simp

section \<open>Events\<close>

text \<open>
  C2 at an input where the code departs from it. On the test page the selector
  \<^verbatim>\<open>#test-div\<close> resolves to a node, and yet \<^verbatim>\<open>dispatch('#test-div', 'click')\<close> fires
  nothing and fails with a TypeError: \<^verbatim>\<open>dispatch\<close> calls \<^verbatim>\<open>dispatchEvent\<close> on the
  string itself, without resolving it.
\<close>

theorem dispatch_selector_not_resolved:
  "resolves example_host test_page (Str ''#test-div'') 3
   \<and> dispatch test_page (Str ''#test-div'') (Str ''click'') = (Inl TypeError, test_page)"
  by code_simp

text \<open>The rest of C2 holds: on a node reference the event is fired on that node, and
  with one argument it is fired on the window.\<close>

lemma dispatch_on_node:
  "truthy evt \<Longrightarrow>
   dispatch w (Node r) evt
     = (Inr Undefined, w\<lparr>dispatched := dispatched w @ [(Node r, to_string evt)]\<rparr>)"
  by (simp add: dispatch_def dispatchEvent_def)

lemma dispatch_global:
  "dispatch w (Str name) Undefined
     = (Inr Undefined, w\<lparr>dispatched := dispatched w @ [(Window, name)]\<rparr>)"
  by (simp add: dispatch_def dispatchEvent_def)

section \<open>Classes\<close>

text \<open>
  C5, as the code has it. Let \<open>c\<close> be any class name and \<open>t\<close> a target that resolves to one
  and the same node \<open>r\<close> at both calls, as every node reference does. Two calls of
  \<^verbatim>\<open>toggle(t, c)\<close> with no force bring the class set of \<open>r\<close> back to what it was: every
  class is a member after them exactly when it was before. Two calls with the same
  explicit force leave the world as the first call left it. When the host takes \<open>c\<close> as a
  token, the calls return the node.
\<close>

theorem toggle_twice:
  assumes "resolves h w t r"
      and "resolves h (snd (toggle h w t (Some c) force)) t r"
  shows "(check_token c = None \<longrightarrow>
            fst (toggle h w t (Some c) force) = Inr (Node r)
            \<and> fst (toggle h (snd (toggle h w t (Some c) force)) t (Some c) force) = Inr (Node r))
         \<and> (force = None \<longrightarrow>
              (\<forall>c'. has_class (snd (toggle h (snd (toggle h w t (Some c) force)) t (Some c) force)) r c'
                     = has_class w r c'))
         \<and> (force \<noteq> None \<longrightarrow>
              snd (toggle h (snd (toggle h w t (Some c) force)) t (Some c) force)
                = snd (toggle h w t (Some c) force))"
proof (cases "check_token c")
  case (Some err)
  have refused: "toggle h w t (Some c) force = (Inl err, w)"
    by (rule toggle_bad_token [OF Some assms(1)])
  show ?thesis
    unfolding refused snd_conv
    unfolding refused snd_conv
    by (simp add: Some)
next
  case None
  let ?f = "\<lambda>cs. (if force = Some True then token_add c
                else if force = Some False then token_remove c
                else token_toggle c) cs"
  let ?w1 = "modify r (\<lambda>e. e\<lparr>classList := ?f (classList e)\<rparr>) w"
  have one: "toggle h w t (Some c) force = (Inr (Node r), ?w1)"
    by (rule toggle_resolved [OF None assms(1)])
  with assms(2) have r1: "resolves h ?w1 t r" by simp
  have two: "toggle h ?w1 t (Some c) force
             = (Inr (Node r), modify r (\<lambda>e. e\<lparr>classList := ?f (?f (classList e))\<rparr>) w)"
    by (simp only: toggle_resolved [OF None r1] modify_modify) simp
  have restored: "force = None \<Longrightarrow>
      has_class (modify r (\<lambda>e. e\<lparr>classList := ?f (?f (classList e))\<rparr>) w) r c' = has_class w r c'" for c'
  proof -
    assume "force = None"
    then have "has_class (modify r (\<lambda>e. e\<lparr>classList := ?f (?f (classList e))\<rparr>) w) r c'
               = (case element_of w r of None \<Rightarrow> False | Some e \<Rightarrow> c' \<in> set (classList e))"
      by (simp add: has_class_modify token_toggle_twice split: option.splits)
    then show ?thesis by (simp add: has_class_def)
  qed
  have same: "force \<noteq> None \<Longrightarrow> ?f (?f cs) = ?f cs" for cs
    by (auto simp: token_add_idem token_remove_idem)
  show ?thesis
    unfolding one two fst_conv snd_conv
    using restored same by simp
qed

theorem toggle_twice_witness:
  "resolves example_host test_page (Str ''#test-div'') 3
   \<and> resolves example_host (snd (toggle example_host test_page (Str ''#test-div'') (Some ''my-class'') None))
         (Str ''#test-div'') 3
   \<and> check_token ''my-class'' = None
   \<and> fst (toggle example_host test_page (Str ''#test-div'') (Some ''my-class'') None) = Inr (Node 3)
   \<and> \<not> has_class test_page 3 ''my-class''
   \<and> has_class (snd (toggle example_host test_page (Str ''#test-div'') (Some ''my-class'') None))
         3 ''my-class''
   \<and> has_class (snd (toggle example_host
          (snd (toggle example_host test_page (Str ''#test-div'') (Some ''my-class'') None))
          (Str ''#test-div'') (Some ''my-class'') None)) 3 ''my-class''
       = has_class test_page 3 ''my-class''
   \<and> snd (toggle example_host
          (snd (toggle example_host test_page (Node 3) (Some ''my-class'') (Some True)))
          (Node 3) (Some ''my-class'') (Some True))
       = snd (toggle example_host test_page (Node 3) (Some ''my-class'') (Some True))"
proof -
  have a: "check_token ''my-class'' = None" by code_simp
  have b: "resolves example_host test_page (Str ''#test-div'') 3" by code_simp
  have c: "resolves example_host
             (snd (toggle example_host test_page (Str ''#test-div'') (Some ''my-class'') None))
             (Str ''#test-div'') 3" by code_simp
  have d: "Some True \<noteq> None" by simp
  have e: "\<not> has_class test_page 3 ''my-class''" by code_simp
  have f: "has_class (snd (toggle example_host test_page (Str ''#test-div'') (Some ''my-class'') None))
             3 ''my-class''" by code_simp
  from toggle_twice [OF b c]
       toggle_twice [where h = example_host and w = test_page and t = "Node 3" and r = 3
                       and c = "''my-class''" and force = "Some True",
                     OF node_reference_resolves node_reference_resolves] a b c d e f
  show ?thesis by blast
qed

text \<open>
  C5 as stated fails where the selector looks at the class being toggled. On a page
  with two hidden elements, both calls of \<^verbatim>\<open>toggle('.d-none', 'd-none')\<close> resolve and
  return a node, the first the element 3 and the second the element 4: the element 3 has
  lost the class and does not get it back. And two calls of
  \<^verbatim>\<open>toggle('.d-none', 'd-none', false)\<close> strip the element 4, which one call leaves as it
  was.
\<close>

theorem toggle_twice_counterexample:
  "resolves example_host two_hidden_page (Str ''.d-none'') 3
   \<and> fst (toggle example_host two_hidden_page (Str ''.d-none'') (Some ''d-none'') None) = Inr (Node 3)
   \<and> fst (toggle example_host
          (snd (toggle example_host two_hidden_page (Str ''.d-none'') (Some ''d-none'') None))
          (Str ''.d-none'') (Some ''d-none'') None) = Inr (Node 4)
   \<and> has_class two_hidden_page 3 ''d-none''
   \<and> \<not> has_class (snd (toggle example_host
          (snd (toggle example_host two_hidden_page (Str ''.d-none'') (Some ''d-none'') None))
          (Str ''.d-none'') (Some ''d-none'') None)) 3 ''d-none''
   \<and> has_class (snd (toggle example_host two_hidden_page (Str ''.d-none'') (Some ''d-none'')
          (Some False))) 4 ''d-none''
   \<and> \<not> has_class (snd (toggle example_host
          (snd (toggle example_host two_hidden_page (Str ''.d-none'') (Some ''d-none'') (Some False)))
          (Str ''.d-none'') (Some ''d-none'') (Some False))) 4 ''d-none''"
  by code_simp

text \<open>
  C9, as the code has it. Let \<open>t\<close> be a target that resolves to one and the same node \<open>r\<close>
  at each call, as every node reference does. After \<^verbatim>\<open>hide(t)\<close> the node has the class
  \<^verbatim>\<open>d-none\<close>; after \<^verbatim>\<open>show(t)\<close> it has not. Any number of further round trips
  \<^verbatim>\<open>hide(t); show(t)\<close> end in the very same world, and a second \<^verbatim>\<open>show(t)\<close> in a row
  changes nothing.
\<close>

theorem hide_show_round_trip:
  assumes "resolves h w t r"
      and "resolves h (hidden h t w) t r"
      and "resolves h (round_trip h t w) t r"
      and "resolves h (hidden h t (round_trip h t w)) t r"
  shows "fst (hide_elem h w t) = Inr Undefined
         \<and> (element_of w r \<noteq> None \<longrightarrow> has_class (hidden h t w) r ''d-none'')
         \<and> fst (show_elem h (hidden h t w) t None) = Inr Undefined
         \<and> \<not> has_class (round_trip h t w) r ''d-none''
         \<and> (round_trip h t ^^ Suc n) w = round_trip h t w
         \<and> show_elem h (round_trip h t w) t None = (Inr Undefined, round_trip h t w)"
proof -
  let ?R = "\<lambda>e. e\<lparr>classList := token_remove ''d-none'' (classList e)\<rparr>"
  have rt: "round_trip h t w = modify r ?R w"
    by (rule round_trip_resolved(2) [OF assms(1,2)])
  have again: "round_trip h t (round_trip h t w) = round_trip h t w"
    by (simp add: round_trip_resolved(2) [OF assms(3,4)])
       (simp add: rt modify_modify token_remove_idem)
  have iter: "(round_trip h t ^^ Suc n) w = round_trip h t w"
    by (induction n) (simp_all add: again)
  have "\<not> has_class (modify r ?R w) r ''d-none''"
    by (simp add: has_class_modify token_remove_def split: option.splits)
  moreover have "show_elem h (round_trip h t w) t None = (Inr Undefined, round_trip h t w)"
    by (simp add: show_resolved [OF assms(3)]) (simp add: rt modify_modify token_remove_idem)
  moreover have "element_of w r \<noteq> None \<longrightarrow> has_class (hidden h t w) r ''d-none''"
    by (simp add: round_trip_resolved(1) [OF assms(1,2)] has_class_modify token_add_def
             split: option.splits)
  ultimately show ?thesis
    using iter by (simp add: hide_resolved [OF assms(1)] show_resolved [OF assms(2)] rt)
qed

theorem hide_show_round_trip_witness:
  "resolves example_host test_page (Str ''#test-button'') 8
   \<and> resolves example_host (hidden example_host (Str ''#test-button'') test_page)
         (Str ''#test-button'') 8
   \<and> resolves example_host (round_trip example_host (Str ''#test-button'') test_page)
         (Str ''#test-button'') 8
   \<and> resolves example_host
         (hidden example_host (Str ''#test-button'')
            (round_trip example_host (Str ''#test-button'') test_page))
         (Str ''#test-button'') 8
   \<and> \<not> has_class test_page 8 ''d-none''
   \<and> has_class (hidden example_host (Str ''#test-button'') test_page) 8 ''d-none''
   \<and> \<not> has_class (round_trip example_host (Str ''#test-button'') test_page) 8 ''d-none''
   \<and> (round_trip example_host (Str ''#test-button'') ^^ Suc 2) test_page
       = round_trip example_host (Str ''#test-button'') test_page
   \<and> show_elem example_host (round_trip example_host (Str ''#test-button'') test_page)
         (Str ''#test-button'') None
       = (Inr Undefined, round_trip example_host (Str ''#test-button'') test_page)"
proof -
  have a: "resolves example_host test_page (Str ''#test-button'') 8" by code_simp
  have b: "resolves example_host (hidden example_host (Str ''#test-button'') test_page)
             (Str ''#test-button'') 8" by code_simp
  have c: "resolves example_host (round_trip example_host (Str ''#test-button'') test_page)
             (Str ''#test-button'') 8" by code_simp
  have d: "resolves example_host
             (hidden example_host (Str ''#test-button'')
                (round_trip example_host (Str ''#test-button'') test_page))
             (Str ''#test-button'') 8" by code_simp
  have e: "\<not> has_class test_page 8 ''d-none''" by code_simp
  have f: "element_of test_page 8 \<noteq> None" by code_simp
  from hide_show_round_trip [OF a b c d, of 2] a b c d e f show ?thesis by blast
qed

text \<open>
  C9 as stated fails where the selector looks at the class \<^verbatim>\<open>d-none\<close>. On the test
  page \<^verbatim>\<open>hide(':not(.d-none)')\<close> hides the element 0; the selector then resolves to the
  element 1, so \<^verbatim>\<open>show(':not(.d-none)')\<close> leaves the element 0 hidden. On the page with
  two hidden elements, after \<^verbatim>\<open>hide('.d-none'); show('.d-none')\<close> a second
  \<^verbatim>\<open>show('.d-none')\<close> unhides the element 4. No call raises.
\<close>

theorem hide_show_counterexample:
  "resolves example_host test_page (Str '':not(.d-none)'') 0
   \<and> fst (hide_elem example_host test_page (Str '':not(.d-none)'')) = Inr Undefined
   \<and> has_class (hidden example_host (Str '':not(.d-none)'') test_page) 0 ''d-none''
   \<and> fst (show_elem example_host (hidden example_host (Str '':not(.d-none)'') test_page)
          (Str '':not(.d-none)'') None) = Inr Undefined
   \<and> has_class (round_trip example_host (Str '':not(.d-none)'') test_page) 0 ''d-none''
   \<and> fst (hide_elem example_host two_hidden_page (Str ''.d-none'')) = Inr Undefined
   \<and> fst (show_elem example_host (hidden example_host (Str ''.d-none'') two_hidden_page)
          (Str ''.d-none'') None) = Inr Undefined
   \<and> fst (show_elem example_host (round_trip example_host (Str ''.d-none'') two_hidden_page)
          (Str ''.d-none'') None) = Inr Undefined
   \<and> has_class (round_trip example_host (Str ''.d-none'') two_hidden_page) 4 ''d-none''
   \<and> \<not> has_class (shown example_host (Str ''.d-none'')
          (round_trip example_host (Str ''.d-none'') two_hidden_page)) 4 ''d-none''"
  by code_simp

section \<open>Content\<close>

text \<open>
  C3, as the code has it. Let \<open>t\<close> resolve to a node \<open>r\<close> of the world that is neither an
  \<^verbatim>\<open>INPUT\<close> nor a \<^verbatim>\<open>TEXTAREA\<close>, and let \<open>X\<close> be any string. \<^verbatim>\<open>update(t, X, 'text')\<close>
  returns the node, and the text content of the node is then exactly \<open>X\<close>, held in one
  text node (none when \<open>X\<close> is empty): nothing of \<open>X\<close> is read as markup.
\<close>

theorem update_text_read_back:
  assumes "resolves h w t r" and "r \<in> set (labels (forest w))"
      and "tagName w r \<noteq> ''INPUT''" and "tagName w r \<noteq> ''TEXTAREA''"
  shows "fst (update h w t (Content X) (Some ''text'')) = Inr (Node r)
         \<and> textContent (snd (update h w t (Content X) (Some ''text''))) r = Some X
         \<and> children_of (snd (update h w t (Content X) (Some ''text''))) r
             = (if X = [] then [] else [Text X])"
  unfolding update_text_resolved [OF assms(1,3,4)] fst_conv snd_conv
  by (simp add: textContent_set_textContent [OF assms(2)])

theorem update_text_read_back_witness:
  "resolves example_host test_page (Str ''#test-div'') 3
   \<and> 3 \<in> set (labels (forest test_page))
   \<and> tagName test_page 3 \<noteq> ''INPUT'' \<and> tagName test_page 3 \<noteq> ''TEXTAREA''
   \<and> fst (update example_host test_page (Str ''#test-div'') (Content ''<b>X</b>'') (Some ''text''))
       = Inr (Node 3)
   \<and> textContent (snd (update example_host test_page (Str ''#test-div'') (Content ''<b>X</b>'')
         (Some ''text''))) 3 = Some ''<b>X</b>''"
proof -
  have a: "resolves example_host test_page (Str ''#test-div'') 3" by code_simp
  have b: "3 \<in> set (labels (forest test_page))" by code_simp
  have c: "tagName test_page 3 \<noteq> ''INPUT''" by code_simp
  have d: "tagName test_page 3 \<noteq> ''TEXTAREA''" by code_simp
  from update_text_read_back [OF a b c d, of "''<b>X</b>''"] a b c d show ?thesis by blast
qed

text \<open>
  C3 as stated fails on the input of the test page: after
  \<^verbatim>\<open>update('#test-input', 'X', 'text')\<close> its text content is still empty. On an
  \<^verbatim>\<open>INPUT\<close> or a \<^verbatim>\<open>TEXTAREA\<close> the content is handed to the setter of \<^verbatim>\<open>value\<close>, and
  whatever that does, the text content is not written (lemma \<open>update_form_control\<close>).
\<close>

theorem update_text_input_counterexample:
  "resolves example_host test_page (Str ''#test-input'') 4
   \<and> fst (update example_host test_page (Str ''#test-input'') (Content ''X'') (Some ''text''))
       = Inr (Node 4)
   \<and> textContent (snd (update example_host test_page (Str ''#test-input'') (Content ''X'')
         (Some ''text''))) 4 = Some []
   \<and> textContent (snd (update example_host test_page (Str ''#test-input'') (Content ''X'')
         (Some ''text''))) 4 \<noteq> Some ''X''"
  by code_simp

section \<open>Creation\<close>

text \<open>
  C8. In a well-formed world, on a host that takes \<^verbatim>\<open>div\<close> and \<^verbatim>\<open>id\<close> as names,
  \<^verbatim>\<open>create('div', {id: 'a', text: 'hi'})\<close> with no parent returns a new node whose
  \<^verbatim>\<open>id\<close> attribute is \<^verbatim>\<open>a\<close>, whose text content is \<^verbatim>\<open>hi\<close> and which has no parent;
  the document is as it was.
\<close>

theorem create_detached_div:
  assumes "wellformed w" and "valid_name h ''div''" and "valid_name h ''id''"
  shows "fst (create h w ''div'' [(''id'', Str ''a''), (''text'', Str ''hi'')] Undefined None)
           = Inr (Node (fresh w))
         \<and> attribute (snd (create h w ''div'' [(''id'', Str ''a''), (''text'', Str ''hi'')] Undefined None))
             (fresh w) ''id'' = Some ''a''
         \<and> textContent (snd (create h w ''div'' [(''id'', Str ''a''), (''text'', Str ''hi'')] Undefined None))
             (fresh w) = Some ''hi''
         \<and> parentNode (snd (create h w ''div'' [(''id'', Str ''a''), (''text'', Str ''hi'')] Undefined None))
             (fresh w) = Null
         \<and> document (snd (create h w ''div'' [(''id'', Str ''a''), (''text'', Str ''hi'')] Undefined None))
             = document w"
proof -
  let ?r = "fresh w"
  let ?e = "\<lparr>localName = ''div'', attributes = [(''id'', ''a'')], classList = [],
             value_prop = [], on_prop = False, listeners = []\<rparr>"
  let ?w = "w\<lparr>detached := detached w @ [Element ?r ?e [Text ''hi'']], fresh := Suc ?r\<rparr>"
  note absent = fresh_absent [OF assms(1)]
  have "create h w ''div'' [(''id'', Str ''a''), (''text'', Str ''hi'')] Undefined None
        = (Inr (Node ?r), ?w)"
    using assms(2,3)
    by (simp add: create_def createElement_def bind_def apply_attribute_def not_on to_lower_letters
          setAttribute_def set_textContent_def to_string_nullable_def
          modify_absent_appended [OF absent] set_children_absent_appended [OF absent])
  then show ?thesis
    by (simp add: attribute_def textContent_def observe_appended [OF absent] labels_simps)
qed

theorem create_detached_div_witness:
  "wellformed test_page \<and> valid_name example_host ''div'' \<and> valid_name example_host ''id''
   \<and> fst (create example_host test_page ''div'' [(''id'', Str ''a''), (''text'', Str ''hi'')] Undefined None)
       = Inr (Node 9)
   \<and> parentNode (snd (create example_host test_page ''div'' [(''id'', Str ''a''), (''text'', Str ''hi'')]
         Undefined None)) 9 = Null"
proof -
  have a: "wellformed test_page" by code_simp
  have b: "valid_name example_host ''div''" by code_simp
  have c: "valid_name example_host ''id''" by code_simp
  have d: "fresh test_page = 9" by code_simp
  from create_detached_div [OF a b c] a b c show ?thesis unfolding d by blast
qed

section \<open>Resources\<close>

text \<open>
  C4, as the code has it. Let the world be well formed, its document have a
  \<^verbatim>\<open>head\<close> and at most one element with the identifier \<open>x\<close>, and let \<open>x\<close> be a
  non-empty string. Then two calls of \<^verbatim>\<open>load(src, {id: x})\<close> return the same node, the
  second call changes nothing, and the document holds exactly one element with the
  identifier \<open>x\<close>. (The host is to take the names \<^verbatim>\<open>link\<close>, \<^verbatim>\<open>script\<close>, \<^verbatim>\<open>rel\<close>,
  \<^verbatim>\<open>href\<close>, \<^verbatim>\<open>src\<close> and \<^verbatim>\<open>id\<close>.)
\<close>

theorem load_twice:
  assumes "wellformed w"
      and "x \<noteq> []"
      and "document_head w = Node hr"
      and "count_id w x \<le> 1"
      and "valid_name h ''link''" and "valid_name h ''script''" and "valid_name h ''rel''"
      and "valid_name h ''href''" and "valid_name h ''src''" and "valid_name h ''id''"
  shows "\<exists>r. fst (load h w src [(''id'', Str x)] Undefined) = Inr (Node r)
             \<and> load h (snd (load h w src [(''id'', Str x)] Undefined)) src [(''id'', Str x)] Undefined
                 = (Inr (Node r), snd (load h w src [(''id'', Str x)] Undefined))
             \<and> count_id (snd (load h w src [(''id'', Str x)] Undefined)) x = 1"
proof (cases "getElementById w x = Null")
  case False
  then obtain r where r: "getElementById w x = Node r"
    using getElementById_Node_or_Null [of w x] by auto
  with assms(4) getElementById_counted [OF r] have "count_id w x = 1" by simp
  with r assms(2) show ?thesis by (simp add: load_plain)
next
  case True
  note none = getElementById_Null [OF assms(2) True]
  note hr = head_in_document [OF assms(3)]
  from assms(1) have dist: "distinct (labels (document w))"
    by (simp add: wellformed_def forest_def labels_append)
  let ?e = "if ends_with ''.css'' src
            then \<lparr>localName = ''link'',
                  attributes = [(''rel'', ''stylesheet''), (''href'', src), (''id'', x)],
                  classList = [], value_prop = [], on_prop = False, listeners = []\<rparr>
            else \<lparr>localName = ''script'', attributes = [(''src'', src), (''id'', x)],
                  classList = [], value_prop = [], on_prop = False, listeners = []\<rparr>"
  let ?w = "w\<lparr>document := concat (map (place BeforeEnd hr [Element (fresh w) ?e []]) (document w)),
              fresh := Suc (fresh w)\<rparr>"
  have first: "load h w src [(''id'', Str x)] Undefined = (Inr (Node (fresh w)), ?w)"
    using True assms(5-10)
    by (simp add: load_plain assms(3) create_link [OF assms(1) hr] create_script [OF assms(1) hr])
  have "filter (has_id x) (elements_list (document ?w))
        = filter (has_id x) (elements_list [Element (fresh w) ?e []])"
    by (simp add: filter_elements_place [OF dist hr none])
  also have "\<dots> = [(fresh w, ?e)]"
    by (simp add: elements_list_simps has_id_def)
  finally have one: "filter (has_id x) (elements_list (document ?w)) = [(fresh w, ?e)]" .
  have "getElementById ?w x = Node (fresh w)"
    by (rule getElementById_found [OF assms(2) one])
  then have second: "load h ?w src [(''id'', Str x)] Undefined = (Inr (Node (fresh w)), ?w)"
    using assms(2) by (simp add: load_plain)
  from one have "count_id ?w x = 1" by (simp add: count_id_def)
  with second show ?thesis unfolding first fst_conv snd_conv by blast
qed

theorem load_twice_witness:
  "wellformed test_page \<and> ''test-css'' \<noteq> [] \<and> document_head test_page = Node 1
   \<and> count_id test_page ''test-css'' \<le> 1
   \<and> valid_name example_host ''link'' \<and> valid_name example_host ''script''
   \<and> valid_name example_host ''rel'' \<and> valid_name example_host ''href''
   \<and> valid_name example_host ''src'' \<and> valid_name example_host ''id''
   \<and> (\<exists>r. fst (load example_host test_page ''test.css'' [(''id'', Str ''test-css'')] Undefined)
              = Inr (Node r)
            \<and> load example_host
                 (snd (load example_host test_page ''test.css'' [(''id'', Str ''test-css'')] Undefined))
                 ''test.css'' [(''id'', Str ''test-css'')] Undefined
                = (Inr (Node r),
                   snd (load example_host test_page ''test.css'' [(''id'', Str ''test-css'')] Undefined))
            \<and> count_id
                 (snd (load example_host test_page ''test.css'' [(''id'', Str ''test-css'')] Undefined))
                 ''test-css'' = 1)"
proof -
  have a: "wellformed test_page" by code_simp
  have b: "''test-css'' \<noteq> []" by simp
  have c: "document_head test_page = Node 1" by code_simp
  have d: "count_id test_page ''test-css'' \<le> 1" by code_simp
  have e: "valid_name example_host ''link''" "valid_name example_host ''script''"
    "valid_name example_host ''rel''" "valid_name example_host ''href''"
    "valid_name example_host ''src''" "valid_name example_host ''id''"
    by code_simp+
  from load_twice [OF a b c d e, of "''test.css''"] a b c d e show ?thesis by blast
qed

text \<open>
  C4 as stated fails for the empty identifier: \<^verbatim>\<open>props.id\<close> is then falsy, the look-up
  is skipped, and each of the two calls of \<^verbatim>\<open>load('a.js', {id: ''})\<close> injects a node of
  its own.
\<close>

theorem load_empty_id_counterexample:
  "fst (load example_host test_page ''a.js'' [(''id'', Str [])] Undefined) = Inr (Node 9)
   \<and> fst (load example_host
          (snd (load example_host test_page ''a.js'' [(''id'', Str [])] Undefined))
          ''a.js'' [(''id'', Str [])] Undefined) = Inr (Node 10)"
  by code_simp

text \<open>
  The other two conditions are needed as well. Without a \<^verbatim>\<open>head\<close> the default parent
  is \<^verbatim>\<open>null\<close>, the new node is inserted nowhere, and the second call makes another one.
  Where two elements had the identifier already, the first is returned and both stay.
\<close>

lemma load_without_head:
  "fst (load example_host headless_page ''a.js'' [(''id'', Str ''x'')] Undefined) = Inr (Node 2)
   \<and> fst (load example_host
          (snd (load example_host headless_page ''a.js'' [(''id'', Str ''x'')] Undefined))
          ''a.js'' [(''id'', Str ''x'')] Undefined) = Inr (Node 3)
   \<and> count_id (snd (load example_host headless_page ''a.js'' [(''id'', Str ''x'')] Undefined)) ''x''
       = 0"
  by code_simp

lemma load_with_twins:
  "load example_host twins_page ''a.js'' [(''id'', Str ''x'')] Undefined = (Inr (Node 3), twins_page)
   \<and> count_id twins_page ''x'' = 2"
  by code_simp

end
